theory Spec2Isabelle
  imports Main "HOL-Library.Word" "HOL-Library.Sublist"
begin

section \<open>The load-test client fixture (itest/loadtest/utils.go)\<close>

text \<open>
  The file builds two tapd client bundles and one bitcoind RPC client for a load test.
  Everything it does is a call into a collaborator (the file system, gRPC, the
  macaroon library, btcd's rpcclient, the mining helper, the test framework), so the
  embedding threads an explicit test state through the three functions of the file and
  records every call, with its outcome, in a trace. What a collaborator answers is a
  parameter: the record \<open>world\<close> holds one function per collaborator, and the effectful
  ones see the trace so far, so that an answer may depend on everything that happened
  before it.
\<close>

subsection \<open>Values\<close>

type_synonym bytes = "8 word list"

text \<open>A Go \<^verbatim>\<open>error\<close> value, by its message.\<close>

type_synonym error = string

text \<open>Handles returned by the libraries: a gRPC channel and a btcd RPC client.\<close>

datatype ClientConn = ClientConn nat

datatype Client = Client nat

type_synonym Certificate = bytes

type_synonym CertPool = "Certificate list"

text \<open>
  \<^verbatim>\<open>tls.Config\<close>, with the two fields the gRPC credential constructors set. A \<open>RootCAs\<close>
  of \<open>None\<close> is Go's nil pool: the host's root CA set is used.
\<close>

record tls_Config =
  ServerName :: string
  RootCAs :: "CertPool option"

definition tls_Config_zero :: tls_Config where
  "tls_Config_zero = \<lparr>ServerName = '''', RootCAs = None\<rparr>"

datatype TransportCredentials = NewTLS tls_Config

definition NewClientTLSFromCert :: "CertPool \<Rightarrow> string \<Rightarrow> TransportCredentials" where
  "NewClientTLSFromCert cp serverNameOverride =
     NewTLS \<lparr>ServerName = serverNameOverride, RootCAs = Some cp\<rparr>"

datatype Macaroon = Macaroon bytes

datatype MacaroonCredential = MacaroonCredential Macaroon

datatype CallOption = MaxCallRecvMsgSize int

datatype DialOption =
    WithTransportCredentials TransportCredentials
  | WithDefaultCallOptions "CallOption list"
  | WithPerRPCCredentials MacaroonCredential

text \<open>
  \<^verbatim>\<open>lnrpc.MaxGrpcMsgSize\<close> belongs to lnd; the comment on \<^verbatim>\<open>maxMsgRecvSize\<close> gives its
  value, 200 MiB.
\<close>

definition MaxGrpcMsgSize :: int where
  "MaxGrpcMsgSize = 200 * 1024 * 1024"

definition maxMsgRecvSize :: CallOption where
  "maxMsgRecvSize = MaxCallRecvMsgSize MaxGrpcMsgSize"

subsection \<open>Configuration\<close>

text \<open>
  Modelled from the spec: the structs \<^verbatim>\<open>Config\<close>, \<^verbatim>\<open>User\<close>, \<^verbatim>\<open>TapConfig\<close> and
  \<^verbatim>\<open>BitcoinConfig\<close> are declared in another file of the package. The records hold the
  fields this file reads (per participant: host, port, optional TLS certificate path,
  optional token path; for the chain backend: host, port, user, password, optional TLS
  certificate path). Field names of different structs must differ in Isabelle, so the
  fields of \<^verbatim>\<open>BitcoinConfig\<close> carry the prefix \<open>Bitcoin\<close> and those of
  \<^verbatim>\<open>rpcclient.ConnConfig\<close> that would clash the prefix \<open>Conn\<close>. All pointers in the
  configuration are taken to be non-nil.
\<close>

record TapConfig =
  Host :: string
  Port :: int
  TLSPath :: string
  MacPath :: string

record BitcoinConfig =
  BitcoinHost :: string
  BitcoinPort :: int
  BitcoinUser :: string
  BitcoinPassword :: string
  BitcoinTLSPath :: string

record User =
  Tapd :: TapConfig

record Config =
  Alice :: User
  Bob :: User
  Bitcoin :: BitcoinConfig

record ConnConfig =
  ConnHost :: string
  ConnUser :: string
  ConnPass :: string
  HTTPPostMode :: bool
  DisableTLS :: bool
  Certificates :: bytes

subsection \<open>The client bundle\<close>

datatype TaprootAssetsClient = NewTaprootAssetsClient ClientConn

datatype UniverseClient = NewUniverseClient ClientConn

datatype MintClient = NewMintClient ClientConn

datatype AssetWalletClient = NewAssetWalletClient ClientConn

record rpcClient =
  client_cfg :: TapConfig
  TaprootAssetsClient :: TaprootAssetsClient
  UniverseClient :: UniverseClient
  MintClient :: MintClient
  AssetWalletClient :: AssetWalletClient

subsection \<open>The test state and the trace\<close>

text \<open>
  The two closures the file hands to \<^verbatim>\<open>t.Cleanup\<close>: the one of \<^verbatim>\<open>getTapClient\<close> closes
  the channel it captured, the one of \<^verbatim>\<open>initClients\<close> mines a block on the client it
  captured.
\<close>

datatype cleanup = CloseConn ClientConn | MineCleanup Client

datatype call =
    ReadFile string
  | DialContext string "DialOption list"
  | GetInfo ClientConn
  | New ConnConfig
  | MineBlocks Client nat nat
  | Close ClientConn
  | Cleanup cleanup

datatype outcome =
    Failed error
  | Done
  | GotBytes bytes
  | GotConn ClientConn
  | GotClient Client

datatype event = Ev call outcome

fun call_of :: "event \<Rightarrow> call" where
  "call_of (Ev c out) = c"

text \<open>
  \<^verbatim>\<open>*testing.T\<close>: the registered cleanups in registration order, the failed flag, and
  the trace of calls made so far.
\<close>

record testingT =
  cleanups :: "cleanup list"
  failed :: bool
  trace :: "event list"

definition newT :: testingT where
  "newT = \<lparr>cleanups = [], failed = False, trace = []\<rparr>"

text \<open>
  A failed \<^verbatim>\<open>require\<close> assertion calls \<^verbatim>\<open>t.FailNow\<close>: the test function stops there. A
  computation therefore returns either the fatal failure or a value, and the state.
\<close>

datatype fatal = NoErrorFailed error | TrueFailed

type_synonym 'a test = "testingT \<Rightarrow> (fatal + 'a) \<times> testingT"

definition returnT :: "'a \<Rightarrow> 'a test" where
  "returnT x t = (Inr x, t)"

definition bindT :: "'a test \<Rightarrow> ('a \<Rightarrow> 'b test) \<Rightarrow> 'b test" where
  "bindT m f t = (case m t of (Inl e, t') \<Rightarrow> (Inl e, t') | (Inr x, t') \<Rightarrow> f x t')"

text \<open>
  A Go call returning \<^verbatim>\<open>(value, err)\<close> is a sum, \<open>Inl\<close> the non-nil error; by the
  libraries' contracts a nil error comes with a usable (non-nil) value. \<^verbatim>\<open>require.NoError\<close>
  on the error of such a pair either stops the test or lets the value through.
\<close>

definition require_NoError :: "error + 'a \<Rightarrow> 'a test" where
  "require_NoError r t =
     (case r of Inl e \<Rightarrow> (Inl (NoErrorFailed e), t\<lparr>failed := True\<rparr>) | Inr x \<Rightarrow> (Inr x, t))"

definition require_True :: "bool \<Rightarrow> unit test" where
  "require_True ok t = (if ok then (Inr (), t) else (Inl TrueFailed, t\<lparr>failed := True\<rparr>))"

definition log :: "call \<Rightarrow> outcome \<Rightarrow> testingT \<Rightarrow> testingT" where
  "log c out t = t\<lparr>trace := trace t @ [Ev c out]\<rparr>"

subsection \<open>The collaborators\<close>

text \<open>
  What the collaborators answer. Reading a file, dialing, probing, constructing the chain
  client, mining and closing act on the outside world: their answer may depend on the
  trace so far, and each such call is recorded. Parsing PEM data, decoding a macaroon and
  wrapping it are functions of their argument and leave no event.
\<close>

record world =
  ReadFile_result :: "event list \<Rightarrow> string \<Rightarrow> error + bytes"
  parsePEMCertificates :: "bytes \<Rightarrow> Certificate list"
  UnmarshalBinary :: "bytes \<Rightarrow> error + Macaroon"
  NewMacaroonCredential :: "Macaroon \<Rightarrow> error + MacaroonCredential"
  DialContext_result :: "event list \<Rightarrow> string \<Rightarrow> DialOption list \<Rightarrow> error + ClientConn"
  GetInfo_result :: "event list \<Rightarrow> ClientConn \<Rightarrow> error + unit"
  New_result :: "event list \<Rightarrow> ConnConfig \<Rightarrow> error + Client"
  MineBlocks_result :: "event list \<Rightarrow> Client \<Rightarrow> nat \<Rightarrow> nat \<Rightarrow> error + unit"
  Close_result :: "event list \<Rightarrow> ClientConn \<Rightarrow> error + unit"

fun outcome_unit :: "error + unit \<Rightarrow> outcome" where
  "outcome_unit (Inl e) = Failed e"
| "outcome_unit (Inr u) = Done"

fun outcome_bytes :: "error + bytes \<Rightarrow> outcome" where
  "outcome_bytes (Inl e) = Failed e"
| "outcome_bytes (Inr b) = GotBytes b"

fun outcome_conn :: "error + ClientConn \<Rightarrow> outcome" where
  "outcome_conn (Inl e) = Failed e"
| "outcome_conn (Inr c) = GotConn c"

fun outcome_client :: "error + Client \<Rightarrow> outcome" where
  "outcome_client (Inl e) = Failed e"
| "outcome_client (Inr c) = GotClient c"

definition os_ReadFile :: "world \<Rightarrow> string \<Rightarrow> (error + bytes) test" where
  "os_ReadFile w name t =
     (let r = ReadFile_result w (trace t) name
      in (Inr r, log (ReadFile name) (outcome_bytes r) t))"

definition NewCertPool :: CertPool where
  "NewCertPool = []"

text \<open>
  \<^verbatim>\<open>cp.AppendCertsFromPEM(pem)\<close> appends the certificates it can parse and reports
  whether it parsed at least one.
\<close>

definition AppendCertsFromPEM :: "world \<Rightarrow> CertPool \<Rightarrow> bytes \<Rightarrow> CertPool \<times> bool" where
  "AppendCertsFromPEM w cp pemCerts =
     (let cs = parsePEMCertificates w pemCerts in (cp @ cs, cs \<noteq> []))"

definition grpc_DialContext :: "world \<Rightarrow> string \<Rightarrow> DialOption list \<Rightarrow> (error + ClientConn) test" where
  "grpc_DialContext w target opts t =
     (let r = DialContext_result w (trace t) target opts
      in (Inr r, log (DialContext target opts) (outcome_conn r) t))"

fun taprpc_GetInfo :: "world \<Rightarrow> TaprootAssetsClient \<Rightarrow> (error + unit) test" where
  "taprpc_GetInfo w (NewTaprootAssetsClient conn) t =
     (let r = GetInfo_result w (trace t) conn
      in (Inr r, log (GetInfo conn) (outcome_unit r) t))"

definition rpcclient_New :: "world \<Rightarrow> ConnConfig \<Rightarrow> (error + Client) test" where
  "rpcclient_New w connCfg t =
     (let r = New_result w (trace t) connCfg
      in (Inr r, log (New connCfg) (outcome_client r) t))"

definition ClientConn_Close :: "world \<Rightarrow> ClientConn \<Rightarrow> (error + unit) test" where
  "ClientConn_Close w conn t =
     (let r = Close_result w (trace t) conn
      in (Inr r, log (Close conn) (outcome_unit r) t))"

text \<open>
  Modelled from the spec: \<^verbatim>\<open>itest.MineBlocks\<close> is a helper of the repository's \<^verbatim>\<open>itest\<close>
  package and is consumed as a black box. It takes the test handle and asserts on its
  own, so a failure of the mining action is fatal to the test; the blocks it returns are
  discarded by both callers.
\<close>

definition itest_MineBlocks :: "world \<Rightarrow> Client \<Rightarrow> nat \<Rightarrow> nat \<Rightarrow> unit test" where
  "itest_MineBlocks w client num numTxs t =
     (let r = MineBlocks_result w (trace t) client num numTxs
      in require_NoError r (log (MineBlocks client num numTxs) (outcome_unit r) t))"

definition t_Cleanup :: "cleanup \<Rightarrow> unit test" where
  "t_Cleanup f t = (Inr (), log (Cleanup f) Done (t\<lparr>cleanups := cleanups t @ [f]\<rparr>))"

subsection \<open>Formatting the address\<close>

text \<open>The decimal digits of a natural number, and \<^verbatim>\<open>%d\<close> of a Go \<^verbatim>\<open>int\<close>.\<close>

function decimal :: "nat \<Rightarrow> string" where
  "decimal n =
     (if n < 10 then [''0123456789'' ! n]
      else decimal (n div 10) @ [''0123456789'' ! (n mod 10)])"
  by pat_completeness auto
termination
  by (relation "measure id") auto

declare decimal.simps [simp del]

definition itoa :: "int \<Rightarrow> string" where
  "itoa i = (if i < 0 then CHR ''-'' # decimal (nat (- i)) else decimal (nat i))"

text \<open>\<^verbatim>\<open>fmt.Sprintf("%s:%d", host, port)\<close>.\<close>

definition Sprintf_s_d :: "string \<Rightarrow> int \<Rightarrow> string" where
  "Sprintf_s_d host port = host @ '':'' @ itoa port"

subsection \<open>getTapClient\<close>

definition getTapClient :: "world \<Rightarrow> TapConfig \<Rightarrow> rpcClient test" where
  "getTapClient w cfg =
     bindT (if TLSPath cfg \<noteq> '''' then
              bindT (os_ReadFile w (TLSPath cfg)) (\<lambda>r.
              bindT (require_NoError r) (\<lambda>tlsCert.
              case AppendCertsFromPEM w NewCertPool tlsCert of (cp, ok) \<Rightarrow>
              bindT (require_True ok) (\<lambda>_.
              returnT (NewClientTLSFromCert cp ''''))))
            else returnT (NewTLS tls_Config_zero)) (\<lambda>creds.
     let opts = [WithTransportCredentials creds, WithDefaultCallOptions [maxMsgRecvSize]] in
     bindT (if MacPath cfg \<noteq> '''' then
              bindT (os_ReadFile w (MacPath cfg)) (\<lambda>r.
              bindT (require_NoError r) (\<lambda>macBytes.
              bindT (require_NoError (UnmarshalBinary w macBytes)) (\<lambda>mac.
              bindT (require_NoError (NewMacaroonCredential w mac)) (\<lambda>macCred.
              returnT (opts @ [WithPerRPCCredentials macCred])))))
            else returnT opts) (\<lambda>opts.
     let svrAddr = Sprintf_s_d (Host cfg) (Port cfg) in
     bindT (grpc_DialContext w svrAddr opts) (\<lambda>r.
     bindT (require_NoError r) (\<lambda>conn.
     let client = \<lparr>client_cfg = cfg,
                   TaprootAssetsClient = NewTaprootAssetsClient conn,
                   UniverseClient = NewUniverseClient conn,
                   MintClient = NewMintClient conn,
                   AssetWalletClient = NewAssetWalletClient conn\<rparr> in
     bindT (t_Cleanup (CloseConn conn)) (\<lambda>_.
     returnT client)))))"

subsection \<open>getBitcoinConn\<close>

definition getBitcoinConn :: "world \<Rightarrow> BitcoinConfig \<Rightarrow> Client test" where
  "getBitcoinConn w cfg =
     (let disableTLS = (BitcoinTLSPath cfg = '''') in
      bindT (if \<not> disableTLS then
               bindT (os_ReadFile w (BitcoinTLSPath cfg)) (\<lambda>r. require_NoError r)
             else returnT []) (\<lambda>rpcCert.
      let connCfg = \<lparr>ConnHost = Sprintf_s_d (BitcoinHost cfg) (BitcoinPort cfg),
                     ConnUser = BitcoinUser cfg,
                     ConnPass = BitcoinPassword cfg,
                     HTTPPostMode = True,
                     DisableTLS = disableTLS,
                     Certificates = rpcCert\<rparr> in
      bindT (rpcclient_New w connCfg) (\<lambda>r.
      require_NoError r)))"

subsection \<open>initClients\<close>

definition initClients :: "world \<Rightarrow> Config \<Rightarrow> (rpcClient \<times> rpcClient \<times> Client) test" where
  "initClients w cfg =
     bindT (getTapClient w (Tapd (Alice cfg))) (\<lambda>alice.
     bindT (taprpc_GetInfo w (TaprootAssetsClient alice)) (\<lambda>r.
     bindT (require_NoError r) (\<lambda>_.
     bindT (getTapClient w (Tapd (Bob cfg))) (\<lambda>bob.
     bindT (taprpc_GetInfo w (TaprootAssetsClient bob)) (\<lambda>r.
     bindT (require_NoError r) (\<lambda>_.
     bindT (getBitcoinConn w (Bitcoin cfg)) (\<lambda>bitcoinClient.
     bindT (itest_MineBlocks w bitcoinClient 1 0) (\<lambda>_.
     bindT (t_Cleanup (MineCleanup bitcoinClient)) (\<lambda>_.
     returnT (alice, bob, bitcoinClient))))))))))"

subsection \<open>Running the registered cleanups\<close>

text \<open>The bodies of the two closures.\<close>

fun run_cleanup :: "world \<Rightarrow> cleanup \<Rightarrow> unit test" where
  "run_cleanup w (CloseConn conn) =
     bindT (ClientConn_Close w conn) (\<lambda>err. require_NoError err)"
| "run_cleanup w (MineCleanup bitcoinClient) = itest_MineBlocks w bitcoinClient 1 0"

text \<open>
  Go's testing package runs the registered cleanups when the test function has returned
  or has been stopped by \<^verbatim>\<open>FailNow\<close>: last registered first, each one once, and a cleanup
  that fails does not keep the remaining ones from running.
\<close>

fun runCleanups :: "world \<Rightarrow> cleanup list \<Rightarrow> testingT \<Rightarrow> testingT" where
  "runCleanups w [] t = t"
| "runCleanups w (f # fs) t = runCleanups w fs (snd (run_cleanup w f t))"

definition runCleanup :: "world \<Rightarrow> testingT \<Rightarrow> testingT" where
  "runCleanup w t = runCleanups w (rev (cleanups t)) (t\<lparr>cleanups := []\<rparr>)"

subsection \<open>Reading the trace\<close>

text \<open>The events, and the calls, that a computation added to the trace of \<open>t\<close>.\<close>

definition events_since :: "testingT \<Rightarrow> testingT \<Rightarrow> event list" where
  "events_since t t' = drop (length (trace t)) (trace t')"

definition calls_since :: "testingT \<Rightarrow> testingT \<Rightarrow> call list" where
  "calls_since t t' = map call_of (events_since t t')"

fun is_DialContext :: "call \<Rightarrow> bool" where
  "is_DialContext (DialContext target opts) = True"
| "is_DialContext c = False"

fun is_New :: "call \<Rightarrow> bool" where
  "is_New (New connCfg) = True"
| "is_New c = False"

fun is_MineBlocks :: "call \<Rightarrow> bool" where
  "is_MineBlocks (MineBlocks client num numTxs) = True"
| "is_MineBlocks c = False"

fun is_Close :: "call \<Rightarrow> bool" where
  "is_Close (Close conn) = True"
| "is_Close c = False"

text \<open>The channel a bundle was built on.\<close>

definition conn_of :: "rpcClient \<Rightarrow> ClientConn" where
  "conn_of client = (case TaprootAssetsClient client of NewTaprootAssetsClient conn \<Rightarrow> conn)"

text \<open>The target address \<^verbatim>\<open>getTapClient\<close> dials.\<close>

definition tapAddr :: "TapConfig \<Rightarrow> string" where
  "tapAddr cfg = Sprintf_s_d (Host cfg) (Port cfg)"

subsection \<open>The prescribed order of calls\<close>

text \<open>
  The calls of one participant's setup and of the chain stage, in the order the
  specification gives them: the file reads of the configured paths, the dial, the
  registration of the close, the probe; then the optional read, the client construction,
  the mining action and the registration of the second mining action.
\<close>

definition tap_reads :: "TapConfig \<Rightarrow> call list" where
  "tap_reads cfg =
     (if TLSPath cfg \<noteq> '''' then [ReadFile (TLSPath cfg)] else []) @
     (if MacPath cfg \<noteq> '''' then [ReadFile (MacPath cfg)] else [])"

definition chain_reads :: "BitcoinConfig \<Rightarrow> call list" where
  "chain_reads cfg = (if BitcoinTLSPath cfg \<noteq> '''' then [ReadFile (BitcoinTLSPath cfg)] else [])"

definition participant_plan :: "TapConfig \<Rightarrow> DialOption list \<Rightarrow> ClientConn \<Rightarrow> call list" where
  "participant_plan cfg opts conn =
     tap_reads cfg @ [DialContext (tapAddr cfg) opts, Cleanup (CloseConn conn), GetInfo conn]"

definition chain_plan :: "BitcoinConfig \<Rightarrow> ConnConfig \<Rightarrow> Client \<Rightarrow> call list" where
  "chain_plan cfg connCfg client =
     chain_reads cfg @ [New connCfg, MineBlocks client 1 0, Cleanup (MineCleanup client)]"

text \<open>
  The channels a trace shows as successfully dialed, and the call a cleanup makes when
  it runs.
\<close>

fun dialed :: "event list \<Rightarrow> ClientConn list" where
  "dialed [] = []"
| "dialed (Ev (DialContext target opts) (GotConn conn) # es) = conn # dialed es"
| "dialed (ev # es) = dialed es"

fun cleanup_call :: "cleanup \<Rightarrow> call" where
  "cleanup_call (CloseConn conn) = Close conn"
| "cleanup_call (MineCleanup client) = MineBlocks client 1 0"

subsection \<open>Concrete collaborators and configurations\<close>

text \<open>
  A world in which everything works: every file holds three bytes, every PEM input
  holds one certificate, every token decodes and wraps, and every dial and every
  client construction returns a handle numbered by the length of the trace so far.
\<close>

definition world_ok :: world where
  "world_ok =
     \<lparr>ReadFile_result = (\<lambda>h name. Inr [1, 2, 3]),
      parsePEMCertificates = (\<lambda>pem. [pem]),
      UnmarshalBinary = (\<lambda>b. Inr (Macaroon b)),
      NewMacaroonCredential = (\<lambda>m. Inr (MacaroonCredential m)),
      DialContext_result = (\<lambda>h target opts. Inr (ClientConn (length h))),
      GetInfo_result = (\<lambda>h conn. Inr ()),
      New_result = (\<lambda>h connCfg. Inr (Client (length h))),
      MineBlocks_result = (\<lambda>h client num numTxs. Inr ()),
      Close_result = (\<lambda>h conn. Inr ())\<rparr>"

definition alice_plain :: TapConfig where
  "alice_plain = \<lparr>Host = ''localhost'', Port = 10029, TLSPath = '''', MacPath = ''''\<rparr>"

definition bob_plain :: TapConfig where
  "bob_plain = \<lparr>Host = ''localhost'', Port = 10030, TLSPath = '''', MacPath = ''''\<rparr>"

definition alice_secure :: TapConfig where
  "alice_secure =
     \<lparr>Host = ''localhost'', Port = 10029, TLSPath = ''alice/tls.cert'',
      MacPath = ''alice/admin.macaroon''\<rparr>"

definition alice_token :: TapConfig where
  "alice_token = alice_plain\<lparr>MacPath := ''alice/admin.macaroon''\<rparr>"

definition alice_tls :: TapConfig where
  "alice_tls = alice_plain\<lparr>TLSPath := ''alice/tls.cert''\<rparr>"

definition bitcoin_plain :: BitcoinConfig where
  "bitcoin_plain =
     \<lparr>BitcoinHost = ''localhost'', BitcoinPort = 18443, BitcoinUser = ''lightning'',
      BitcoinPassword = ''lightning'', BitcoinTLSPath = ''''\<rparr>"

definition bitcoin_tls :: BitcoinConfig where
  "bitcoin_tls = bitcoin_plain\<lparr>BitcoinTLSPath := ''bitcoin/rpc.cert''\<rparr>"

definition config_plain :: Config where
  "config_plain =
     \<lparr>Alice = \<lparr>Tapd = alice_plain\<rparr>, Bob = \<lparr>Tapd = bob_plain\<rparr>, Bitcoin = bitcoin_plain\<rparr>"

definition config_token :: Config where
  "config_token = config_plain\<lparr>Alice := \<lparr>Tapd = alice_token\<rparr>\<rparr>"

definition world_no_certs :: world where
  "world_no_certs = world_ok\<lparr>parsePEMCertificates := (\<lambda>pem. [])\<rparr>"

definition world_bad_macaroon :: world where
  "world_bad_macaroon =
     world_ok\<lparr>UnmarshalBinary := (\<lambda>b. Inl ''unsupported macaroon version'')\<rparr>"

definition world_bad_wrap :: world where
  "world_bad_wrap =
     world_ok\<lparr>NewMacaroonCredential := (\<lambda>m. Inl ''cannot copy macaroon'')\<rparr>"

definition world_unreadable :: world where
  "world_unreadable = world_ok\<lparr>ReadFile_result := (\<lambda>h name. Inl ''no such file'')\<rparr>"

definition world_alice_down :: world where
  "world_alice_down =
     world_ok\<lparr>GetInfo_result := (\<lambda>h conn. Inl ''connection refused'')\<rparr>"

definition world_bob_down :: world where
  "world_bob_down =
     world_ok\<lparr>GetInfo_result :=
       (\<lambda>h conn. if conn = ClientConn 0 then Inr () else Inl ''connection refused'')\<rparr>"

text \<open>The bundles, the client and the test state of the plain example after setup.\<close>

definition alice_client :: rpcClient where
  "alice_client =
     \<lparr>client_cfg = alice_plain,
      TaprootAssetsClient = NewTaprootAssetsClient (ClientConn 0),
      UniverseClient = NewUniverseClient (ClientConn 0),
      MintClient = NewMintClient (ClientConn 0),
      AssetWalletClient = NewAssetWalletClient (ClientConn 0)\<rparr>"

definition bob_client :: rpcClient where
  "bob_client =
     \<lparr>client_cfg = bob_plain,
      TaprootAssetsClient = NewTaprootAssetsClient (ClientConn 3),
      UniverseClient = NewUniverseClient (ClientConn 3),
      MintClient = NewMintClient (ClientConn 3),
      AssetWalletClient = NewAssetWalletClient (ClientConn 3)\<rparr>"

definition alice_built :: testingT where
  "alice_built =
     \<lparr>cleanups = [CloseConn (ClientConn 0)], failed = False,
      trace = [Ev (DialContext ''localhost:10029''
                     [WithTransportCredentials (NewTLS tls_Config_zero),
                      WithDefaultCallOptions [maxMsgRecvSize]])
                  (GotConn (ClientConn 0)),
               Ev (Cleanup (CloseConn (ClientConn 0))) Done]\<rparr>"

definition bob_built :: testingT where
  "bob_built =
     \<lparr>cleanups = [CloseConn (ClientConn 0), CloseConn (ClientConn 3)], failed = False,
      trace = trace alice_built @
              [Ev (GetInfo (ClientConn 0)) Done,
               Ev (DialContext ''localhost:10030''
                     [WithTransportCredentials (NewTLS tls_Config_zero),
                      WithDefaultCallOptions [maxMsgRecvSize]])
                  (GotConn (ClientConn 3)),
               Ev (Cleanup (CloseConn (ClientConn 3))) Done]\<rparr>"

text \<open>The same for the example in which participant A carries a token.\<close>

definition alice_token_client :: rpcClient where
  "alice_token_client =
     \<lparr>client_cfg = alice_token,
      TaprootAssetsClient = NewTaprootAssetsClient (ClientConn 1),
      UniverseClient = NewUniverseClient (ClientConn 1),
      MintClient = NewMintClient (ClientConn 1),
      AssetWalletClient = NewAssetWalletClient (ClientConn 1)\<rparr>"

definition bob_token_client :: rpcClient where
  "bob_token_client =
     \<lparr>client_cfg = bob_plain,
      TaprootAssetsClient = NewTaprootAssetsClient (ClientConn 4),
      UniverseClient = NewUniverseClient (ClientConn 4),
      MintClient = NewMintClient (ClientConn 4),
      AssetWalletClient = NewAssetWalletClient (ClientConn 4)\<rparr>"

definition after_token_setup :: testingT where
  "after_token_setup = snd (initClients world_ok config_token newT)"

definition after_setup :: testingT where
  "after_setup = snd (initClients world_ok config_plain newT)"

section \<open>Properties\<close>

lemmas monad_defs = bindT_def returnT_def require_NoError_def require_True_def log_def
  os_ReadFile_def grpc_DialContext_def t_Cleanup_def rpcclient_New_def ClientConn_Close_def
  itest_MineBlocks_def AppendCertsFromPEM_def NewCertPool_def Let_def

lemmas since_defs = events_since_def calls_since_def

lemmas example_defs = world_ok_def alice_plain_def bob_plain_def alice_secure_def
  bitcoin_plain_def bitcoin_tls_def config_plain_def newT_def
  Sprintf_s_d_def itoa_def decimal.simps tapAddr_def
  world_no_certs_def world_bad_macaroon_def world_bad_wrap_def world_unreadable_def
  world_alice_down_def world_bob_down_def alice_client_def bob_client_def
  alice_built_def bob_built_def alice_token_def alice_tls_def config_token_def
  alice_token_client_def bob_token_client_def

subsection \<open>Traces of the three functions\<close>

lemma dialed_append: "dialed (xs @ ys) = dialed xs @ dialed ys"
  by (induction xs rule: dialed.induct) simp_all

lemma taprpc_GetInfo_conn_of:
  "taprpc_GetInfo w (TaprootAssetsClient cl) t =
     (Inr (GetInfo_result w (trace t) (conn_of cl)),
      log (GetInfo (conn_of cl)) (outcome_unit (GetInfo_result w (trace t) (conn_of cl))) t)"
  by (cases "TaprootAssetsClient cl") (simp add: Let_def conn_of_def)

lemma getTapClient_Inr:
  assumes "getTapClient w cfg t = (Inr cl, t')"
  shows "\<exists>opts rs.
           trace t' = trace t @ rs @
             [Ev (DialContext (tapAddr cfg) opts) (GotConn (conn_of cl)),
              Ev (Cleanup (CloseConn (conn_of cl))) Done]
           \<and> map call_of rs = tap_reads cfg \<and> dialed rs = []
           \<and> cleanups t' = cleanups t @ [CloseConn (conn_of cl)]
           \<and> failed t' = failed t \<and> client_cfg cl = cfg"
  using assms unfolding getTapClient_def tap_reads_def tapAddr_def
  by (auto simp: monad_defs Let_def conn_of_def split: if_splits sum.splits prod.splits)

lemma getTapClient_Inl:
  assumes "getTapClient w cfg t = (Inl f, t')"
  shows "\<exists>opts es. trace t' = trace t @ es
           \<and> prefix (map call_of es) (tap_reads cfg @ [DialContext (tapAddr cfg) opts])
           \<and> dialed es = []
           \<and> cleanups t' = cleanups t \<and> failed t'"
  using assms unfolding getTapClient_def tap_reads_def tapAddr_def
  by (auto simp: monad_defs Let_def split: if_splits sum.splits prod.splits)

lemma getBitcoinConn_Inr:
  assumes "getBitcoinConn w cfg t = (Inr client, t')"
  shows "\<exists>connCfg rs.
           trace t' = trace t @ rs @ [Ev (New connCfg) (GotClient client)]
           \<and> map call_of rs = chain_reads cfg \<and> dialed rs = []
           \<and> cleanups t' = cleanups t \<and> failed t' = failed t"
  using assms unfolding getBitcoinConn_def chain_reads_def
  by (auto simp: monad_defs Let_def split: if_splits sum.splits prod.splits)

lemma getBitcoinConn_Inl:
  assumes "getBitcoinConn w cfg t = (Inl f, t')"
  shows "\<exists>connCfg es. trace t' = trace t @ es
           \<and> prefix (map call_of es) (chain_reads cfg @ [New connCfg])
           \<and> dialed es = []
           \<and> cleanups t' = cleanups t \<and> failed t'"
  using assms unfolding getBitcoinConn_def chain_reads_def
  by (auto simp: monad_defs Let_def split: if_splits sum.splits prod.splits)

lemma participant_stage:
  assumes "bindT (getTapClient w cfg) (\<lambda>cl.
           bindT (taprpc_GetInfo w (TaprootAssetsClient cl)) (\<lambda>r.
           bindT (require_NoError r) (\<lambda>_. k cl))) t = (res, t')"
  obtains (abort) f es opts conn where
      "res = Inl f" "trace t' = trace t @ es"
      "prefix (map call_of es) (participant_plan cfg opts conn)"
      "cleanups t' = cleanups t @ map CloseConn (dialed es)" "failed t'"
    | (continue) cl t1 rs opts where
      "k cl t1 = (res, t')"
      "trace t1 = trace t @ rs @
         [Ev (DialContext (tapAddr cfg) opts) (GotConn (conn_of cl)),
          Ev (Cleanup (CloseConn (conn_of cl))) Done,
          Ev (GetInfo (conn_of cl)) Done]"
      "map call_of rs = tap_reads cfg" "dialed rs = []"
      "cleanups t1 = cleanups t @ [CloseConn (conn_of cl)]" "failed t1 = failed t"
      "client_cfg cl = cfg"
proof (cases "getTapClient w cfg t")
  case (Pair r1 t1)
  show ?thesis
  proof (cases r1)
    case (Inl f)
    with Pair assms have res: "res = Inl f" "t' = t1"
      by (simp_all add: bindT_def)
    from getTapClient_Inl [of w cfg t f t1] Pair Inl obtain opts es where
      es: "trace t1 = trace t @ es"
        "prefix (map call_of es) (tap_reads cfg @ [DialContext (tapAddr cfg) opts])"
        "dialed es = []" "cleanups t1 = cleanups t" "failed t1"
      by auto
    from es(2) have "prefix (map call_of es) (participant_plan cfg opts undefined)"
      unfolding participant_plan_def
      by (metis append.assoc append_Cons append_Nil prefix_prefix)
    with res es show ?thesis
      by (intro abort [of f es opts undefined]) simp_all
  next
    case (Inr cl)
    from getTapClient_Inr [of w cfg t cl t1] Pair Inr obtain opts rs where
      rs: "trace t1 = trace t @ rs @
             [Ev (DialContext (tapAddr cfg) opts) (GotConn (conn_of cl)),
              Ev (Cleanup (CloseConn (conn_of cl))) Done]"
        "map call_of rs = tap_reads cfg" "dialed rs = []"
        "cleanups t1 = cleanups t @ [CloseConn (conn_of cl)]"
        "failed t1 = failed t" "client_cfg cl = cfg"
      by auto
    show ?thesis
    proof (cases "GetInfo_result w (trace t1) (conn_of cl)")
      case (Inl e)
      let ?es = "rs @ [Ev (DialContext (tapAddr cfg) opts) (GotConn (conn_of cl)),
              Ev (Cleanup (CloseConn (conn_of cl))) Done,
              Ev (GetInfo (conn_of cl)) (Failed e)]"
      from assms Pair Inr Inl have res: "res = Inl (NoErrorFailed e)"
        "t' = (log (GetInfo (conn_of cl)) (Failed e) t1)\<lparr>failed := True\<rparr>"
        by (simp_all add: bindT_def taprpc_GetInfo_conn_of require_NoError_def)
      have "trace t' = trace t @ ?es" "cleanups t' = cleanups t @ map CloseConn (dialed ?es)"
        "failed t'" "prefix (map call_of ?es) (participant_plan cfg opts (conn_of cl))"
        using res rs by (simp_all add: log_def dialed_append participant_plan_def)
      with res show ?thesis
        by (intro abort [of "NoErrorFailed e" ?es opts "conn_of cl"])
    next
      case (Inr u)
      from assms Pair \<open>r1 = Inr cl\<close> Inr
      have "k cl (log (GetInfo (conn_of cl)) Done t1) = (res, t')"
        by (simp add: bindT_def taprpc_GetInfo_conn_of require_NoError_def)
      then show ?thesis
        using rs by (intro continue [of cl "log (GetInfo (conn_of cl)) Done t1" rs opts])
          (simp_all add: log_def)
    qed
  qed
qed

lemma itest_MineBlocks_cases:
  "itest_MineBlocks w client num numTxs t =
     (case MineBlocks_result w (trace t) client num numTxs of
        Inl e \<Rightarrow> (Inl (NoErrorFailed e),
                   (log (MineBlocks client num numTxs) (Failed e) t)\<lparr>failed := True\<rparr>)
      | Inr u \<Rightarrow> (Inr (), log (MineBlocks client num numTxs) Done t))"
  by (simp add: itest_MineBlocks_def require_NoError_def Let_def split: sum.split)

lemma chain_stage:
  assumes "bindT (getBitcoinConn w cfg) (\<lambda>bitcoinClient.
           bindT (itest_MineBlocks w bitcoinClient 1 0) (\<lambda>_.
           bindT (t_Cleanup (MineCleanup bitcoinClient)) (\<lambda>_.
           returnT (a, b, bitcoinClient)))) t = (res, t')"
  obtains (abort) f es connCfg client where
      "res = Inl f" "trace t' = trace t @ es"
      "prefix (map call_of es) (chain_plan cfg connCfg client)"
      "dialed es = []" "cleanups t' = cleanups t" "failed t'"
    | (complete) client rs connCfg where
      "res = Inr (a, b, client)"
      "trace t' = trace t @ rs @
         [Ev (New connCfg) (GotClient client),
          Ev (MineBlocks client 1 0) Done,
          Ev (Cleanup (MineCleanup client)) Done]"
      "map call_of rs = chain_reads cfg" "dialed rs = []"
      "cleanups t' = cleanups t @ [MineCleanup client]" "failed t' = failed t"
proof (cases "getBitcoinConn w cfg t")
  case (Pair r1 t1)
  show ?thesis
  proof (cases r1)
    case (Inl f)
    with Pair assms have res: "res = Inl f" "t' = t1"
      by (simp_all add: bindT_def)
    from getBitcoinConn_Inl [of w cfg t f t1] Pair Inl obtain connCfg es where
      es: "trace t1 = trace t @ es"
        "prefix (map call_of es) (chain_reads cfg @ [New connCfg])"
        "dialed es = []" "cleanups t1 = cleanups t" "failed t1"
      by auto
    from es(2) have "prefix (map call_of es) (chain_plan cfg connCfg undefined)"
      unfolding chain_plan_def
      by (metis append.assoc append_Cons append_Nil prefix_prefix)
    with res es show ?thesis
      by (intro abort [of f es connCfg undefined]) simp_all
  next
    case (Inr client)
    from getBitcoinConn_Inr [of w cfg t client t1] Pair Inr obtain connCfg rs where
      rs: "trace t1 = trace t @ rs @ [Ev (New connCfg) (GotClient client)]"
        "map call_of rs = chain_reads cfg" "dialed rs = []"
        "cleanups t1 = cleanups t" "failed t1 = failed t"
      by auto
    show ?thesis
    proof (cases "MineBlocks_result w (trace t1) client 1 0")
      case (Inl e)
      let ?es = "rs @ [Ev (New connCfg) (GotClient client),
                       Ev (MineBlocks client 1 0) (Failed e)]"
      from assms Pair Inr Inl have res: "res = Inl (NoErrorFailed e)"
        "t' = (log (MineBlocks client 1 0) (Failed e) t1)\<lparr>failed := True\<rparr>"
        by (simp_all add: bindT_def itest_MineBlocks_cases)
      have "trace t' = trace t @ ?es" "cleanups t' = cleanups t" "dialed ?es = []"
        "failed t'" "prefix (map call_of ?es) (chain_plan cfg connCfg client)"
        using res rs by (simp_all add: log_def dialed_append chain_plan_def)
      with res show ?thesis
        by (intro abort [of "NoErrorFailed e" ?es connCfg client])
    next
      case (Inr u)
      from assms Pair \<open>r1 = Inr client\<close> Inr
      have "res = Inr (a, b, client)"
        "t' = log (Cleanup (MineCleanup client)) Done
                ((log (MineBlocks client 1 0) Done t1)
                   \<lparr>cleanups := cleanups t1 @ [MineCleanup client]\<rparr>)"
        by (simp_all add: bindT_def itest_MineBlocks_cases t_Cleanup_def returnT_def log_def)
      then show ?thesis
        using rs by (intro complete [of client rs connCfg]) (simp_all add: log_def)
    qed
  qed
qed

lemma run_cleanup_trace:
  "\<exists>out. trace (snd (run_cleanup w f t)) = trace t @ [Ev (cleanup_call f) out]
         \<and> cleanups (snd (run_cleanup w f t)) = cleanups t"
  by (cases f)
    (auto simp: bindT_def ClientConn_Close_def require_NoError_def itest_MineBlocks_cases
      log_def Let_def split: sum.splits)

lemma runCleanups_trace:
  "\<exists>es. trace (runCleanups w fs t) = trace t @ es \<and> map call_of es = map cleanup_call fs
        \<and> cleanups (runCleanups w fs t) = cleanups t"
proof (induction fs arbitrary: t)
  case Nil
  show ?case by simp
next
  case (Cons f fs)
  obtain out where out:
    "trace (snd (run_cleanup w f t)) = trace t @ [Ev (cleanup_call f) out]"
    "cleanups (snd (run_cleanup w f t)) = cleanups t"
    using run_cleanup_trace by blast
  from Cons [of "snd (run_cleanup w f t)"] obtain es where
    "trace (runCleanups w fs (snd (run_cleanup w f t))) = trace (snd (run_cleanup w f t)) @ es"
    "map call_of es = map cleanup_call fs"
    "cleanups (runCleanups w fs (snd (run_cleanup w f t))) = cleanups (snd (run_cleanup w f t))"
    by blast
  with out show ?case
    by (intro exI [of _ "Ev (cleanup_call f) out # es"]) simp
qed

lemma runCleanup_calls:
  "calls_since t (runCleanup w t) = map cleanup_call (rev (cleanups t))"
  using runCleanups_trace [of w "rev (cleanups t)" "t\<lparr>cleanups := []\<rparr>"]
  by (auto simp: runCleanup_def since_defs)

lemma initClients_cases:
  assumes "initClients w cfg t = (res, t')"
  obtains (alice_aborts) f es opts conn where
      "res = Inl f" "trace t' = trace t @ es"
      "prefix (map call_of es) (participant_plan (Tapd (Alice cfg)) opts conn)"
      "cleanups t' = cleanups t @ map CloseConn (dialed es)" "failed t'"
    | (bob_aborts) f alice rsA optsA es optsB conn where
      "res = Inl f"
      "trace t' = trace t @ rsA @
         [Ev (DialContext (tapAddr (Tapd (Alice cfg))) optsA) (GotConn (conn_of alice)),
          Ev (Cleanup (CloseConn (conn_of alice))) Done,
          Ev (GetInfo (conn_of alice)) Done] @ es"
      "map call_of rsA = tap_reads (Tapd (Alice cfg))" "dialed rsA = []"
      "prefix (map call_of es) (participant_plan (Tapd (Bob cfg)) optsB conn)"
      "cleanups t' = cleanups t @ [CloseConn (conn_of alice)] @ map CloseConn (dialed es)"
      "failed t'"
    | (chain_aborts) f alice rsA optsA bob rsB optsB es connCfg client where
      "res = Inl f"
      "trace t' = trace t @ rsA @
         [Ev (DialContext (tapAddr (Tapd (Alice cfg))) optsA) (GotConn (conn_of alice)),
          Ev (Cleanup (CloseConn (conn_of alice))) Done,
          Ev (GetInfo (conn_of alice)) Done] @ rsB @
         [Ev (DialContext (tapAddr (Tapd (Bob cfg))) optsB) (GotConn (conn_of bob)),
          Ev (Cleanup (CloseConn (conn_of bob))) Done,
          Ev (GetInfo (conn_of bob)) Done] @ es"
      "map call_of rsA = tap_reads (Tapd (Alice cfg))" "dialed rsA = []"
      "map call_of rsB = tap_reads (Tapd (Bob cfg))" "dialed rsB = []"
      "prefix (map call_of es) (chain_plan (Bitcoin cfg) connCfg client)" "dialed es = []"
      "cleanups t' = cleanups t @ [CloseConn (conn_of alice), CloseConn (conn_of bob)]"
      "failed t'"
    | (success) alice rsA optsA bob rsB optsB client rsC connCfg where
      "res = Inr (alice, bob, client)"
      "trace t' = trace t @ rsA @
         [Ev (DialContext (tapAddr (Tapd (Alice cfg))) optsA) (GotConn (conn_of alice)),
          Ev (Cleanup (CloseConn (conn_of alice))) Done,
          Ev (GetInfo (conn_of alice)) Done] @ rsB @
         [Ev (DialContext (tapAddr (Tapd (Bob cfg))) optsB) (GotConn (conn_of bob)),
          Ev (Cleanup (CloseConn (conn_of bob))) Done,
          Ev (GetInfo (conn_of bob)) Done] @ rsC @
         [Ev (New connCfg) (GotClient client),
          Ev (MineBlocks client 1 0) Done,
          Ev (Cleanup (MineCleanup client)) Done]"
      "map call_of rsA = tap_reads (Tapd (Alice cfg))" "dialed rsA = []"
      "map call_of rsB = tap_reads (Tapd (Bob cfg))" "dialed rsB = []"
      "map call_of rsC = chain_reads (Bitcoin cfg)" "dialed rsC = []"
      "cleanups t' = cleanups t @
         [CloseConn (conn_of alice), CloseConn (conn_of bob), MineCleanup client]"
      "failed t' = failed t"
      "client_cfg alice = Tapd (Alice cfg)" "client_cfg bob = Tapd (Bob cfg)"
  using assms unfolding initClients_def
proof (cases rule: participant_stage)
  case (abort f es opts conn)
  then show ?thesis
    by (intro alice_aborts [of f es opts conn])
next
  case A: (continue alice t1 rsA optsA)
  from A(1) show ?thesis
  proof (cases rule: participant_stage)
    case (abort f es opts conn)
    with A show ?thesis
      by (intro bob_aborts [of f rsA optsA alice es opts conn]) simp_all
  next
    case B: (continue bob t2 rsB optsB)
    from B(1) show ?thesis
    proof (cases rule: chain_stage)
      case (abort f es connCfg client)
      with A B show ?thesis
        by (intro chain_aborts [of f rsA optsA alice rsB optsB bob es connCfg client]) simp_all
    next
      case (complete client rsC connCfg)
      with A B show ?thesis
        by (intro success [of alice bob client rsA optsA rsB optsB rsC connCfg]) simp_all
    qed
  qed
qed

lemma initClients_plan:
  "\<exists>optsA connA optsB connB connCfg client.
     prefix (calls_since t (snd (initClients w cfg t)))
       (participant_plan (Tapd (Alice cfg)) optsA connA @
        participant_plan (Tapd (Bob cfg)) optsB connB @
        chain_plan (Bitcoin cfg) connCfg client)"
proof (cases "initClients w cfg t")
  case (Pair res t')
  then show ?thesis
  proof (cases rule: initClients_cases)
    case (alice_aborts f es opts conn)
    have "calls_since t t' = map call_of es"
      by (simp add: since_defs alice_aborts)
    moreover have "prefix (map call_of es)
       (participant_plan (Tapd (Alice cfg)) opts conn @
        participant_plan (Tapd (Bob cfg)) [] conn @
        chain_plan (Bitcoin cfg) undefined undefined)"
      using alice_aborts(3) by (rule prefix_prefix)
    ultimately show ?thesis
      unfolding Pair snd_conv by metis
  next
    case (bob_aborts f alice rsA optsA es optsB conn)
    have "calls_since t t' =
        participant_plan (Tapd (Alice cfg)) optsA (conn_of alice) @ map call_of es"
      by (simp add: since_defs participant_plan_def bob_aborts)
    moreover have "prefix (map call_of es)
       (participant_plan (Tapd (Bob cfg)) optsB conn @
        chain_plan (Bitcoin cfg) undefined undefined)"
      using bob_aborts(5) by (rule prefix_prefix)
    ultimately have "prefix (calls_since t t')
       (participant_plan (Tapd (Alice cfg)) optsA (conn_of alice) @
        participant_plan (Tapd (Bob cfg)) optsB conn @
        chain_plan (Bitcoin cfg) undefined undefined)"
      by simp
    then show ?thesis
      unfolding Pair snd_conv by blast
  next
    case (chain_aborts f alice rsA optsA bob rsB optsB es connCfg client)
    have "calls_since t t' =
        participant_plan (Tapd (Alice cfg)) optsA (conn_of alice) @
        participant_plan (Tapd (Bob cfg)) optsB (conn_of bob) @ map call_of es"
      by (simp add: since_defs participant_plan_def chain_aborts)
    with chain_aborts(7) have "prefix (calls_since t t')
       (participant_plan (Tapd (Alice cfg)) optsA (conn_of alice) @
        participant_plan (Tapd (Bob cfg)) optsB (conn_of bob) @
        chain_plan (Bitcoin cfg) connCfg client)"
      by simp
    then show ?thesis
      unfolding Pair snd_conv by blast
  next
    case (success alice rsA optsA bob rsB optsB client rsC connCfg)
    have "calls_since t t' =
        participant_plan (Tapd (Alice cfg)) optsA (conn_of alice) @
        participant_plan (Tapd (Bob cfg)) optsB (conn_of bob) @
        chain_plan (Bitcoin cfg) connCfg client"
      by (simp add: since_defs participant_plan_def chain_plan_def success)
    then have "prefix (calls_since t t')
       (participant_plan (Tapd (Alice cfg)) optsA (conn_of alice) @
        participant_plan (Tapd (Bob cfg)) optsB (conn_of bob) @
        chain_plan (Bitcoin cfg) connCfg client)"
      by simp
    then show ?thesis
      unfolding Pair snd_conv by blast
  qed
qed

lemma probe_in_append:
  assumes "xs @ ys = pre @ GetInfo c # post"
  shows "(\<exists>post'. xs = pre @ GetInfo c # post')
         \<or> (\<exists>pre'. pre = xs @ pre' \<and> ys = pre' @ GetInfo c # post)"
  using assms by (auto simp: append_eq_append_conv2 append_eq_Cons_conv)

lemma tap_reads_no_probe: "tap_reads cfg \<noteq> pre @ GetInfo c # post"
  by (auto simp: tap_reads_def Cons_eq_append_conv)

lemma chain_plan_no_probe: "chain_plan cfg connCfg client \<noteq> pre @ GetInfo c # post"
  by (auto simp: chain_plan_def chain_reads_def Cons_eq_append_conv)

lemma participant_plan_probe:
  assumes "participant_plan cfg opts conn @ ys = pre @ GetInfo c # post"
  shows "Cleanup (CloseConn c) \<in> set pre
         \<or> (\<exists>pre'. pre = participant_plan cfg opts conn @ pre' \<and> ys = pre' @ GetInfo c # post)"
proof -
  from probe_in_append [OF assms] show ?thesis
  proof
    assume "\<exists>post'. participant_plan cfg opts conn = pre @ GetInfo c # post'"
    then obtain post' where
      "tap_reads cfg @ [DialContext (tapAddr cfg) opts, Cleanup (CloseConn conn), GetInfo conn]
         = pre @ GetInfo c # post'"
      by (auto simp: participant_plan_def)
    from probe_in_append [OF this] tap_reads_no_probe [of cfg pre c]
    obtain pre' where "pre = tap_reads cfg @ pre'"
      "[DialContext (tapAddr cfg) opts, Cleanup (CloseConn conn), GetInfo conn]
         = pre' @ GetInfo c # post'"
      by blast
    then show ?thesis
      by (auto simp: Cons_eq_append_conv)
  next
    assume "\<exists>pre'. pre = participant_plan cfg opts conn @ pre' \<and> ys = pre' @ GetInfo c # post"
    then show ?thesis by blast
  qed
qed

lemma plan_probe_after_registration:
  assumes "participant_plan cfgA optsA connA @ participant_plan cfgB optsB connB @
           chain_plan cfgC connCfg client = pre @ GetInfo c # post"
  shows "Cleanup (CloseConn c) \<in> set pre"
proof -
  from participant_plan_probe [OF assms] show ?thesis
  proof
    assume "\<exists>pre'. pre = participant_plan cfgA optsA connA @ pre'
       \<and> participant_plan cfgB optsB connB @ chain_plan cfgC connCfg client
           = pre' @ GetInfo c # post"
    then obtain pre' where pre': "pre = participant_plan cfgA optsA connA @ pre'"
      "participant_plan cfgB optsB connB @ chain_plan cfgC connCfg client
           = pre' @ GetInfo c # post"
      by blast
    from participant_plan_probe [OF pre'(2)] chain_plan_no_probe [of cfgC connCfg client _ c post]
    have "Cleanup (CloseConn c) \<in> set pre'"
      by blast
    with pre'(1) show ?thesis by simp
  qed
qed

lemma initClients_probe_after_registration:
  assumes "calls_since t (snd (initClients w cfg t)) = pre @ GetInfo c # post"
  shows "Cleanup (CloseConn c) \<in> set pre"
proof -
  from initClients_plan [of t w cfg] assms obtain optsA connA optsB connB connCfg client zs where
    "participant_plan (Tapd (Alice cfg)) optsA connA @
        participant_plan (Tapd (Bob cfg)) optsB connB @
        chain_plan (Bitcoin cfg) connCfg client = pre @ GetInfo c # (post @ zs)"
    by (auto simp: prefix_def)
  then show ?thesis
    by (rule plan_probe_after_registration)
qed

lemma initClients_dialed_closers:
  "cleanups (snd (initClients w cfg t)) =
     cleanups t @ map CloseConn (dialed (events_since t (snd (initClients w cfg t))))
       @ (case fst (initClients w cfg t) of Inl f \<Rightarrow> []
          | Inr (alice, bob, client) \<Rightarrow> [MineCleanup client])"
proof (cases "initClients w cfg t")
  case (Pair res t')
  show ?thesis
    unfolding Pair fst_conv snd_conv using Pair
    by (cases rule: initClients_cases) (simp_all add: since_defs dialed_append)
qed

lemma tap_reads_filters:
  "filter is_DialContext (tap_reads cfg) = []"
  "filter is_New (tap_reads cfg) = []"
  "filter is_MineBlocks (tap_reads cfg) = []"
  by (simp_all add: tap_reads_def)

lemma initClients_alice_probe_fails:
  assumes "getTapClient w (Tapd (Alice cfg)) t = (Inr alice, t1)"
    and "GetInfo_result w (trace t1) (conn_of alice) = Inl e"
  shows "initClients w cfg t =
           (Inl (NoErrorFailed e),
            t1\<lparr>trace := trace t1 @ [Ev (GetInfo (conn_of alice)) (Failed e)], failed := True\<rparr>)"
  using assms
  by (simp add: initClients_def bindT_def taprpc_GetInfo_conn_of require_NoError_def log_def)

lemma initClients_bob_probe_fails:
  assumes "getTapClient w (Tapd (Alice cfg)) t = (Inr alice, t1)"
    and "GetInfo_result w (trace t1) (conn_of alice) = Inr ()"
    and "getTapClient w (Tapd (Bob cfg)) (log (GetInfo (conn_of alice)) Done t1) = (Inr bob, t2)"
    and "GetInfo_result w (trace t2) (conn_of bob) = Inl e"
  shows "initClients w cfg t =
           (Inl (NoErrorFailed e),
            t2\<lparr>trace := trace t2 @ [Ev (GetInfo (conn_of bob)) (Failed e)], failed := True\<rparr>)"
  using assms
  by (simp add: initClients_def bindT_def taprpc_GetInfo_conn_of require_NoError_def log_def)

lemmas run_defs = initClients_def getTapClient_def getBitcoinConn_def runCleanup_def
  conn_of_def

lemma set_dialed:
  "conn \<in> set (dialed es) \<longleftrightarrow> (\<exists>target opts. Ev (DialContext target opts) (GotConn conn) \<in> set es)"
  by (induction es rule: dialed.induct) auto

lemma alice_down_run:
  "initClients world_alice_down config_plain newT =
     (Inl (NoErrorFailed ''connection refused''),
      \<lparr>cleanups = [CloseConn (ClientConn 0)], failed = True,
       trace = [Ev (DialContext ''localhost:10029''
                      [WithTransportCredentials (NewTLS tls_Config_zero),
                       WithDefaultCallOptions [maxMsgRecvSize]])
                   (GotConn (ClientConn 0)),
                Ev (Cleanup (CloseConn (ClientConn 0))) Done,
                Ev (GetInfo (ClientConn 0)) (Failed ''connection refused'')]\<rparr>)"
  by (simp add: run_defs monad_defs example_defs)

lemma getBitcoinConn_succeeds:
  assumes "BitcoinTLSPath cfg = ''''"
    and "\<forall>h connCfg. \<exists>client. New_result w h connCfg = Inr client"
  shows "\<exists>client t'. getBitcoinConn w cfg t = (Inr client, t')"
proof -
  from assms(2) obtain client where
    "New_result w (trace t)
       \<lparr>ConnHost = Sprintf_s_d (BitcoinHost cfg) (BitcoinPort cfg),
        ConnUser = BitcoinUser cfg, ConnPass = BitcoinPassword cfg,
        HTTPPostMode = True, DisableTLS = True, Certificates = []\<rparr> = Inr client"
    by blast
  with assms(1) show ?thesis
    by (simp add: getBitcoinConn_def monad_defs)
qed

lemma initClients_success_shape:
  assumes "initClients w cfg t = (Inr (alice, bob, client), t')"
  shows "\<exists>optsA optsB connCfg.
           calls_since t t' =
             tap_reads (Tapd (Alice cfg)) @
             [DialContext (tapAddr (Tapd (Alice cfg))) optsA,
              Cleanup (CloseConn (conn_of alice)), GetInfo (conn_of alice)] @
             tap_reads (Tapd (Bob cfg)) @
             [DialContext (tapAddr (Tapd (Bob cfg))) optsB,
              Cleanup (CloseConn (conn_of bob)), GetInfo (conn_of bob)] @
             chain_reads (Bitcoin cfg) @
             [New connCfg, MineBlocks client 1 0, Cleanup (MineCleanup client)]"
    and "cleanups t' = cleanups t @
           [CloseConn (conn_of alice), CloseConn (conn_of bob), MineCleanup client]"
    and "failed t' = failed t"
    and "client_cfg alice = Tapd (Alice cfg)" and "client_cfg bob = Tapd (Bob cfg)"
  using assms by (cases rule: initClients_cases; simp add: since_defs)+

lemma teardown_after_success:
  assumes "initClients w cfg t = (Inr (alice, bob, client), t')" and "cleanups t = []"
  shows "calls_since (t'\<lparr>trace := trace t' @ body\<rparr>) (runCleanup w (t'\<lparr>trace := trace t' @ body\<rparr>))
           = [MineBlocks client 1 0, Close (conn_of bob), Close (conn_of alice)]"
  using initClients_success_shape(2) [OF assms(1)] assms(2)
  by (simp add: runCleanup_calls)

lemma ok_run:
  "initClients world_ok config_plain newT =
     (Inr (alice_client, bob_client, Client 6),
      \<lparr>cleanups = [CloseConn (ClientConn 0), CloseConn (ClientConn 3), MineCleanup (Client 6)],
       failed = False,
       trace = trace bob_built @
               [Ev (GetInfo (ClientConn 3)) Done,
                Ev (New \<lparr>ConnHost = ''localhost:18443'', ConnUser = ''lightning'',
                          ConnPass = ''lightning'', HTTPPostMode = True, DisableTLS = True,
                          Certificates = []\<rparr>)
                   (GotClient (Client 6)),
                Ev (MineBlocks (Client 6) 1 0) Done,
                Ev (Cleanup (MineCleanup (Client 6))) Done]\<rparr>)"
  by (simp add: run_defs monad_defs example_defs)

lemma after_setup_eq:
  "after_setup =
      \<lparr>cleanups = [CloseConn (ClientConn 0), CloseConn (ClientConn 3), MineCleanup (Client 6)],
       failed = False,
       trace = trace bob_built @
               [Ev (GetInfo (ClientConn 3)) Done,
                Ev (New \<lparr>ConnHost = ''localhost:18443'', ConnUser = ''lightning'',
                          ConnPass = ''lightning'', HTTPPostMode = True, DisableTLS = True,
                          Certificates = []\<rparr>)
                   (GotClient (Client 6)),
                Ev (MineBlocks (Client 6) 1 0) Done,
                Ev (Cleanup (MineCleanup (Client 6))) Done]\<rparr>"
  by (simp add: after_setup_def ok_run)

lemma ok_run_after_setup:
  "initClients world_ok config_plain newT =
     (Inr (alice_client, bob_client, Client 6), after_setup)"
  by (simp add: after_setup_eq ok_run)

lemma run_cleanup_calls:
  "calls_since s (snd (run_cleanup w f s)) = [cleanup_call f]"
  using run_cleanup_trace [of w f s] by (auto simp: since_defs)

lemma getTapClient_valid_succeeds:
  assumes "TLSPath cfg = ''''"
    and token: "MacPath cfg \<noteq> '''' \<longrightarrow>
        (\<forall>h. \<exists>b m c. ReadFile_result w h (MacPath cfg) = Inr b
                  \<and> UnmarshalBinary w b = Inr m \<and> NewMacaroonCredential w m = Inr c)"
    and dial: "\<forall>h target opts. \<exists>conn. DialContext_result w h target opts = Inr conn"
  shows "\<exists>cl t'. getTapClient w cfg t = (Inr cl, t')"
proof (cases "MacPath cfg = ''''")
  case True
  from dial obtain conn where
    "DialContext_result w (trace t) (Sprintf_s_d (Host cfg) (Port cfg))
       [WithTransportCredentials (NewTLS tls_Config_zero),
        WithDefaultCallOptions [maxMsgRecvSize]] = Inr conn"
    by blast
  with assms(1) True show ?thesis
    by (simp add: getTapClient_def monad_defs)
next
  case False
  with token obtain b m c where
    tok: "ReadFile_result w (trace t) (MacPath cfg) = Inr b"
      "UnmarshalBinary w b = Inr m" "NewMacaroonCredential w m = Inr c"
    by blast
  from dial obtain conn where
    "DialContext_result w (trace t @ [Ev (ReadFile (MacPath cfg)) (GotBytes b)])
       (Sprintf_s_d (Host cfg) (Port cfg))
       [WithTransportCredentials (NewTLS tls_Config_zero),
        WithDefaultCallOptions [maxMsgRecvSize],
        WithPerRPCCredentials c] = Inr conn"
    by blast
  with assms(1) False tok show ?thesis
    by (simp add: getTapClient_def monad_defs)
qed

lemma initClients_valid_succeeds:
  assumes "TLSPath (Tapd (Alice cfg)) = ''''" and "TLSPath (Tapd (Bob cfg)) = ''''"
    and "BitcoinTLSPath (Bitcoin cfg) = ''''"
    and tokA: "MacPath (Tapd (Alice cfg)) \<noteq> '''' \<longrightarrow>
        (\<forall>h. \<exists>b m c. ReadFile_result w h (MacPath (Tapd (Alice cfg))) = Inr b
                  \<and> UnmarshalBinary w b = Inr m \<and> NewMacaroonCredential w m = Inr c)"
    and tokB: "MacPath (Tapd (Bob cfg)) \<noteq> '''' \<longrightarrow>
        (\<forall>h. \<exists>b m c. ReadFile_result w h (MacPath (Tapd (Bob cfg))) = Inr b
                  \<and> UnmarshalBinary w b = Inr m \<and> NewMacaroonCredential w m = Inr c)"
    and dial: "\<forall>h target opts. \<exists>conn. DialContext_result w h target opts = Inr conn"
    and probe: "\<forall>h conn. GetInfo_result w h conn = Inr ()"
    and new: "\<forall>h connCfg. \<exists>client. New_result w h connCfg = Inr client"
    and mine: "\<forall>h client. MineBlocks_result w h client 1 0 = Inr ()"
  shows "\<exists>alice bob client t'. initClients w cfg t = (Inr (alice, bob, client), t')"
proof -
  from getTapClient_valid_succeeds [OF assms(1) tokA dial] obtain alice t1 where
    a: "getTapClient w (Tapd (Alice cfg)) t = (Inr alice, t1)"
    by blast
  from getTapClient_valid_succeeds [OF assms(2) tokB dial] obtain bob t2 where
    b: "getTapClient w (Tapd (Bob cfg)) (log (GetInfo (conn_of alice)) Done t1) = (Inr bob, t2)"
    by blast
  from getBitcoinConn_succeeds [OF assms(3) new] obtain client t3 where
    c: "getBitcoinConn w (Bitcoin cfg) (log (GetInfo (conn_of bob)) Done t2) = (Inr client, t3)"
    by blast
  show ?thesis
    using a b c probe mine
    by (simp add: initClients_def bindT_def taprpc_GetInfo_conn_of require_NoError_def
        itest_MineBlocks_cases t_Cleanup_def returnT_def)
qed

lemma teardown_after_success_general:
  assumes "initClients w cfg t = (Inr (alice, bob, client), t')"
  shows "calls_since (t'\<lparr>trace := trace t' @ body\<rparr>) (runCleanup w (t'\<lparr>trace := trace t' @ body\<rparr>))
           = [MineBlocks client 1 0, Close (conn_of bob), Close (conn_of alice)]
             @ map cleanup_call (rev (cleanups t))"
  using initClients_success_shape(2) [OF assms]
  by (simp add: runCleanup_calls)

lemma reads_no_mining:
  "filter is_MineBlocks (tap_reads tapCfg) = []"
  "filter is_MineBlocks (chain_reads chainCfg) = []"
  by (simp_all add: tap_reads_def chain_reads_def)

lemma token_run:
  "initClients world_ok config_token newT =
     (Inr (alice_token_client, bob_token_client, Client 7), after_token_setup)"
  by (simp add: after_token_setup_def run_defs monad_defs example_defs)

subsection \<open>The credential phase of getTapClient\<close>

text \<open>
  C5. When the TLS path is set and the file it names yields no certificate, the
  assertion on \<^verbatim>\<open>AppendCertsFromPEM\<close> stops the test: \<^verbatim>\<open>getTapClient\<close> fails fatally, the
  only call it has made is the read of that file, and in particular it has not dialed.
\<close>

theorem getTapClient_zero_certificates_fatal:
  assumes "TLSPath cfg \<noteq> ''''"
    and "ReadFile_result w (trace t) (TLSPath cfg) = Inr pem"
    and "parsePEMCertificates w pem = []"
  shows "getTapClient w cfg t =
           (Inl TrueFailed,
            t\<lparr>trace := trace t @ [Ev (ReadFile (TLSPath cfg)) (GotBytes pem)], failed := True\<rparr>)
         \<and> filter is_DialContext (calls_since t (snd (getTapClient w cfg t))) = []"
  using assms by (simp add: getTapClient_def monad_defs since_defs)

theorem getTapClient_zero_certificates_fatal_witness:
  "TLSPath alice_secure \<noteq> ''''
   \<and> ReadFile_result world_no_certs (trace newT) (TLSPath alice_secure) = Inr [1, 2, 3]
   \<and> parsePEMCertificates world_no_certs [1, 2, 3] = []
   \<and> getTapClient world_no_certs alice_secure newT =
       (Inl TrueFailed,
        \<lparr>cleanups = [], failed = True,
         trace = [Ev (ReadFile ''alice/tls.cert'') (GotBytes [1, 2, 3])]\<rparr>)
   \<and> filter is_DialContext
        (calls_since newT (snd (getTapClient world_no_certs alice_secure newT))) = []"
proof -
  have a: "TLSPath alice_secure \<noteq> ''''"
    by (simp add: example_defs)
  have b: "ReadFile_result world_no_certs (trace newT) (TLSPath alice_secure) = Inr [1, 2, 3]"
    by (simp add: example_defs)
  have c: "parsePEMCertificates world_no_certs [1, 2, 3] = []"
    by (simp add: example_defs)
  show ?thesis
    using a b c getTapClient_zero_certificates_fatal [OF a b c]
    by (simp add: example_defs since_defs)
qed

text \<open>
  C6. When the token path is set and names a file whose bytes do not decode as a
  macaroon, \<^verbatim>\<open>getTapClient\<close> fails fatally without having dialed; likewise when the
  bytes decode but wrapping the macaroon into a per-call credential fails. The file is
  taken to be there whenever it is read. If no TLS path is set, the fatal failure is the
  \<^verbatim>\<open>require.NoError\<close> on the decoding or wrapping error itself; with a TLS path set the
  builder may already have failed, as fatally, in the TLS phase.
\<close>

theorem getTapClient_bad_token_fatal:
  "(MacPath cfg \<noteq> '''' \<and> (\<forall>h. ReadFile_result w h (MacPath cfg) = Inr macBytes)
      \<and> UnmarshalBinary w macBytes = Inl e
    \<longrightarrow> (\<exists>f t'. getTapClient w cfg t = (Inl f, t') \<and> failed t'
            \<and> (TLSPath cfg = '''' \<longrightarrow> f = NoErrorFailed e)
            \<and> filter is_DialContext (calls_since t t') = []))
   \<and> (MacPath cfg \<noteq> '''' \<and> (\<forall>h. ReadFile_result w h (MacPath cfg) = Inr macBytes)
      \<and> UnmarshalBinary w macBytes = Inr mac \<and> NewMacaroonCredential w mac = Inl e
    \<longrightarrow> (\<exists>f t'. getTapClient w cfg t = (Inl f, t') \<and> failed t'
            \<and> (TLSPath cfg = '''' \<longrightarrow> f = NoErrorFailed e)
            \<and> filter is_DialContext (calls_since t t') = []))"
  unfolding getTapClient_def
  by (auto simp: monad_defs since_defs Let_def split: sum.splits prod.splits)

theorem getTapClient_bad_token_fatal_witness:
  "(MacPath alice_secure \<noteq> ''''
    \<and> (\<forall>h. ReadFile_result world_bad_macaroon h (MacPath alice_secure) = Inr [1, 2, 3])
    \<and> UnmarshalBinary world_bad_macaroon [1, 2, 3] = Inl ''unsupported macaroon version''
    \<and> (\<exists>f t'. getTapClient world_bad_macaroon alice_secure newT = (Inl f, t') \<and> failed t'
          \<and> filter is_DialContext (calls_since newT t') = []))
   \<and> (MacPath alice_secure \<noteq> ''''
    \<and> (\<forall>h. ReadFile_result world_bad_wrap h (MacPath alice_secure) = Inr [1, 2, 3])
    \<and> UnmarshalBinary world_bad_wrap [1, 2, 3] = Inr (Macaroon [1, 2, 3])
    \<and> NewMacaroonCredential world_bad_wrap (Macaroon [1, 2, 3]) = Inl ''cannot copy macaroon''
    \<and> (\<exists>f t'. getTapClient world_bad_wrap alice_secure newT = (Inl f, t') \<and> failed t'
          \<and> filter is_DialContext (calls_since newT t') = []))"
proof -
  have a: "MacPath alice_secure \<noteq> ''''"
    by (simp add: example_defs)
  have b1: "\<forall>h. ReadFile_result world_bad_macaroon h (MacPath alice_secure) = Inr [1, 2, 3]"
    by (simp add: example_defs)
  have c1: "UnmarshalBinary world_bad_macaroon [1, 2, 3] = Inl ''unsupported macaroon version''"
    by (simp add: example_defs)
  have b2: "\<forall>h. ReadFile_result world_bad_wrap h (MacPath alice_secure) = Inr [1, 2, 3]"
    by (simp add: example_defs)
  have c2: "UnmarshalBinary world_bad_wrap [1, 2, 3] = Inr (Macaroon [1, 2, 3])"
    by (simp add: example_defs)
  have d2: "NewMacaroonCredential world_bad_wrap (Macaroon [1, 2, 3]) = Inl ''cannot copy macaroon''"
    by (simp add: example_defs)
  from getTapClient_bad_token_fatal
         [of alice_secure world_bad_macaroon "[1, 2, 3]" "''unsupported macaroon version''" newT]
       a b1 c1
  have first: "\<exists>f t'. getTapClient world_bad_macaroon alice_secure newT = (Inl f, t') \<and> failed t'
          \<and> filter is_DialContext (calls_since newT t') = []"
    by blast
  from getTapClient_bad_token_fatal
         [of alice_secure world_bad_wrap "[1, 2, 3]" "''cannot copy macaroon''" newT
             "Macaroon [1, 2, 3]"]
       a b2 c2 d2
  have second: "\<exists>f t'. getTapClient world_bad_wrap alice_secure newT = (Inl f, t') \<and> failed t'
          \<and> filter is_DialContext (calls_since newT t') = []"
    by blast
  show ?thesis
    using a b1 c1 b2 c2 d2 first second by blast
qed

text \<open>
  C7. With neither path configured, \<^verbatim>\<open>getTapClient\<close> reads no file and goes straight to
  the dial, with the transport credentials of the zero \<^verbatim>\<open>tls.Config\<close> (default trust),
  the receive-size option and no per-call credential; what it returns is decided by the
  dial alone. The same holds when only one path is absent: with no TLS path and a valid
  token, the only read is that of the token and the dial carries the default-trust
  credentials plus the per-call credential; with no token path and a TLS file holding a
  certificate, the only read is that of the TLS file and the dial carries the parsed pool
  and no per-call credential. In general every fatal failure of \<^verbatim>\<open>getTapClient\<close> has one
  of five causes: the read of a configured TLS path failed, the configured TLS file held
  no certificate, the read of a configured token path failed, the configured token did
  not decode or wrap, or the dial returned an error. An absent path is never one.
\<close>

theorem getTapClient_no_paths:
  "(TLSPath cfg = '''' \<and> MacPath cfg = '''' \<longrightarrow>
      getTapClient w cfg t =
        (let opts = [WithTransportCredentials (NewTLS tls_Config_zero),
                     WithDefaultCallOptions [maxMsgRecvSize]]
         in case DialContext_result w (trace t) (tapAddr cfg) opts of
              Inl e \<Rightarrow>
                (Inl (NoErrorFailed e),
                 t\<lparr>trace := trace t @ [Ev (DialContext (tapAddr cfg) opts) (Failed e)],
                   failed := True\<rparr>)
            | Inr conn \<Rightarrow>
                (Inr \<lparr>client_cfg = cfg,
                      TaprootAssetsClient = NewTaprootAssetsClient conn,
                      UniverseClient = NewUniverseClient conn,
                      MintClient = NewMintClient conn,
                      AssetWalletClient = NewAssetWalletClient conn\<rparr>,
                 t\<lparr>cleanups := cleanups t @ [CloseConn conn],
                   trace := trace t @ [Ev (DialContext (tapAddr cfg) opts) (GotConn conn),
                                       Ev (Cleanup (CloseConn conn)) Done]\<rparr>)))
   \<and> (TLSPath cfg = '''' \<and> MacPath cfg \<noteq> ''''
      \<and> ReadFile_result w (trace t) (MacPath cfg) = Inr macBytes
      \<and> UnmarshalBinary w macBytes = Inr mac \<and> NewMacaroonCredential w mac = Inr macCred
      \<longrightarrow>
      getTapClient w cfg t =
        (let opts = [WithTransportCredentials (NewTLS tls_Config_zero),
                     WithDefaultCallOptions [maxMsgRecvSize],
                     WithPerRPCCredentials macCred];
             h = trace t @ [Ev (ReadFile (MacPath cfg)) (GotBytes macBytes)]
         in case DialContext_result w h (tapAddr cfg) opts of
              Inl e \<Rightarrow>
                (Inl (NoErrorFailed e),
                 t\<lparr>trace := h @ [Ev (DialContext (tapAddr cfg) opts) (Failed e)],
                   failed := True\<rparr>)
            | Inr conn \<Rightarrow>
                (Inr \<lparr>client_cfg = cfg,
                      TaprootAssetsClient = NewTaprootAssetsClient conn,
                      UniverseClient = NewUniverseClient conn,
                      MintClient = NewMintClient conn,
                      AssetWalletClient = NewAssetWalletClient conn\<rparr>,
                 t\<lparr>cleanups := cleanups t @ [CloseConn conn],
                   trace := h @ [Ev (DialContext (tapAddr cfg) opts) (GotConn conn),
                                 Ev (Cleanup (CloseConn conn)) Done]\<rparr>)))
   \<and> (TLSPath cfg \<noteq> '''' \<and> MacPath cfg = ''''
      \<and> ReadFile_result w (trace t) (TLSPath cfg) = Inr pem
      \<and> parsePEMCertificates w pem \<noteq> []
      \<longrightarrow>
      getTapClient w cfg t =
        (let opts = [WithTransportCredentials
                       (NewClientTLSFromCert (parsePEMCertificates w pem) ''''),
                     WithDefaultCallOptions [maxMsgRecvSize]];
             h = trace t @ [Ev (ReadFile (TLSPath cfg)) (GotBytes pem)]
         in case DialContext_result w h (tapAddr cfg) opts of
              Inl e \<Rightarrow>
                (Inl (NoErrorFailed e),
                 t\<lparr>trace := h @ [Ev (DialContext (tapAddr cfg) opts) (Failed e)],
                   failed := True\<rparr>)
            | Inr conn \<Rightarrow>
                (Inr \<lparr>client_cfg = cfg,
                      TaprootAssetsClient = NewTaprootAssetsClient conn,
                      UniverseClient = NewUniverseClient conn,
                      MintClient = NewMintClient conn,
                      AssetWalletClient = NewAssetWalletClient conn\<rparr>,
                 t\<lparr>cleanups := cleanups t @ [CloseConn conn],
                   trace := h @ [Ev (DialContext (tapAddr cfg) opts) (GotConn conn),
                                 Ev (Cleanup (CloseConn conn)) Done]\<rparr>)))
   \<and> (\<forall>f t'. getTapClient w cfg t = (Inl f, t') \<longrightarrow>
         (\<exists>e. f = NoErrorFailed e \<and> TLSPath cfg \<noteq> ''''
              \<and> last (trace t') = Ev (ReadFile (TLSPath cfg)) (Failed e))
         \<or> (\<exists>b. f = TrueFailed \<and> TLSPath cfg \<noteq> ''''
              \<and> last (trace t') = Ev (ReadFile (TLSPath cfg)) (GotBytes b)
              \<and> parsePEMCertificates w b = [])
         \<or> (\<exists>e. f = NoErrorFailed e \<and> MacPath cfg \<noteq> ''''
              \<and> last (trace t') = Ev (ReadFile (MacPath cfg)) (Failed e))
         \<or> (\<exists>e b. f = NoErrorFailed e \<and> MacPath cfg \<noteq> ''''
              \<and> last (trace t') = Ev (ReadFile (MacPath cfg)) (GotBytes b)
              \<and> (UnmarshalBinary w b = Inl e
                  \<or> (\<exists>m. UnmarshalBinary w b = Inr m \<and> NewMacaroonCredential w m = Inl e)))
         \<or> (\<exists>opts e. f = NoErrorFailed e
              \<and> last (trace t') = Ev (DialContext (tapAddr cfg) opts) (Failed e)))"
proof (intro conjI)
  show "TLSPath cfg = '''' \<and> MacPath cfg = '''' \<longrightarrow>
      getTapClient w cfg t =
        (let opts = [WithTransportCredentials (NewTLS tls_Config_zero),
                     WithDefaultCallOptions [maxMsgRecvSize]]
         in case DialContext_result w (trace t) (tapAddr cfg) opts of
              Inl e \<Rightarrow>
                (Inl (NoErrorFailed e),
                 t\<lparr>trace := trace t @ [Ev (DialContext (tapAddr cfg) opts) (Failed e)],
                   failed := True\<rparr>)
            | Inr conn \<Rightarrow>
                (Inr \<lparr>client_cfg = cfg,
                      TaprootAssetsClient = NewTaprootAssetsClient conn,
                      UniverseClient = NewUniverseClient conn,
                      MintClient = NewMintClient conn,
                      AssetWalletClient = NewAssetWalletClient conn\<rparr>,
                 t\<lparr>cleanups := cleanups t @ [CloseConn conn],
                   trace := trace t @ [Ev (DialContext (tapAddr cfg) opts) (GotConn conn),
                                       Ev (Cleanup (CloseConn conn)) Done]\<rparr>))"
    by (simp add: getTapClient_def tapAddr_def monad_defs split: sum.splits)
next
  show "TLSPath cfg = '''' \<and> MacPath cfg \<noteq> ''''
      \<and> ReadFile_result w (trace t) (MacPath cfg) = Inr macBytes
      \<and> UnmarshalBinary w macBytes = Inr mac \<and> NewMacaroonCredential w mac = Inr macCred
      \<longrightarrow>
      getTapClient w cfg t =
        (let opts = [WithTransportCredentials (NewTLS tls_Config_zero),
                     WithDefaultCallOptions [maxMsgRecvSize],
                     WithPerRPCCredentials macCred];
             h = trace t @ [Ev (ReadFile (MacPath cfg)) (GotBytes macBytes)]
         in case DialContext_result w h (tapAddr cfg) opts of
              Inl e \<Rightarrow>
                (Inl (NoErrorFailed e),
                 t\<lparr>trace := h @ [Ev (DialContext (tapAddr cfg) opts) (Failed e)],
                   failed := True\<rparr>)
            | Inr conn \<Rightarrow>
                (Inr \<lparr>client_cfg = cfg,
                      TaprootAssetsClient = NewTaprootAssetsClient conn,
                      UniverseClient = NewUniverseClient conn,
                      MintClient = NewMintClient conn,
                      AssetWalletClient = NewAssetWalletClient conn\<rparr>,
                 t\<lparr>cleanups := cleanups t @ [CloseConn conn],
                   trace := h @ [Ev (DialContext (tapAddr cfg) opts) (GotConn conn),
                                 Ev (Cleanup (CloseConn conn)) Done]\<rparr>))"
    by (simp add: getTapClient_def tapAddr_def monad_defs split: sum.splits)
next
  show "TLSPath cfg \<noteq> '''' \<and> MacPath cfg = ''''
      \<and> ReadFile_result w (trace t) (TLSPath cfg) = Inr pem
      \<and> parsePEMCertificates w pem \<noteq> []
      \<longrightarrow>
      getTapClient w cfg t =
        (let opts = [WithTransportCredentials
                       (NewClientTLSFromCert (parsePEMCertificates w pem) ''''),
                     WithDefaultCallOptions [maxMsgRecvSize]];
             h = trace t @ [Ev (ReadFile (TLSPath cfg)) (GotBytes pem)]
         in case DialContext_result w h (tapAddr cfg) opts of
              Inl e \<Rightarrow>
                (Inl (NoErrorFailed e),
                 t\<lparr>trace := h @ [Ev (DialContext (tapAddr cfg) opts) (Failed e)],
                   failed := True\<rparr>)
            | Inr conn \<Rightarrow>
                (Inr \<lparr>client_cfg = cfg,
                      TaprootAssetsClient = NewTaprootAssetsClient conn,
                      UniverseClient = NewUniverseClient conn,
                      MintClient = NewMintClient conn,
                      AssetWalletClient = NewAssetWalletClient conn\<rparr>,
                 t\<lparr>cleanups := cleanups t @ [CloseConn conn],
                   trace := h @ [Ev (DialContext (tapAddr cfg) opts) (GotConn conn),
                                 Ev (Cleanup (CloseConn conn)) Done]\<rparr>))"
    by (simp add: getTapClient_def tapAddr_def monad_defs split: sum.splits)
next
  show "\<forall>f t'. getTapClient w cfg t = (Inl f, t') \<longrightarrow>
         (\<exists>e. f = NoErrorFailed e \<and> TLSPath cfg \<noteq> ''''
              \<and> last (trace t') = Ev (ReadFile (TLSPath cfg)) (Failed e))
         \<or> (\<exists>b. f = TrueFailed \<and> TLSPath cfg \<noteq> ''''
              \<and> last (trace t') = Ev (ReadFile (TLSPath cfg)) (GotBytes b)
              \<and> parsePEMCertificates w b = [])
         \<or> (\<exists>e. f = NoErrorFailed e \<and> MacPath cfg \<noteq> ''''
              \<and> last (trace t') = Ev (ReadFile (MacPath cfg)) (Failed e))
         \<or> (\<exists>e b. f = NoErrorFailed e \<and> MacPath cfg \<noteq> ''''
              \<and> last (trace t') = Ev (ReadFile (MacPath cfg)) (GotBytes b)
              \<and> (UnmarshalBinary w b = Inl e
                  \<or> (\<exists>m. UnmarshalBinary w b = Inr m \<and> NewMacaroonCredential w m = Inl e)))
         \<or> (\<exists>opts e. f = NoErrorFailed e
              \<and> last (trace t') = Ev (DialContext (tapAddr cfg) opts) (Failed e))"
    unfolding getTapClient_def tapAddr_def
    by (auto simp: monad_defs split: sum.splits prod.splits if_splits)
qed

theorem getTapClient_no_paths_witness:
  "TLSPath alice_plain = '''' \<and> MacPath alice_plain = ''''
   \<and> getTapClient world_ok alice_plain newT =
       (Inr \<lparr>client_cfg = alice_plain,
             TaprootAssetsClient = NewTaprootAssetsClient (ClientConn 0),
             UniverseClient = NewUniverseClient (ClientConn 0),
             MintClient = NewMintClient (ClientConn 0),
             AssetWalletClient = NewAssetWalletClient (ClientConn 0)\<rparr>,
        \<lparr>cleanups = [CloseConn (ClientConn 0)], failed = False,
         trace = [Ev (DialContext ''localhost:10029''
                        [WithTransportCredentials (NewTLS \<lparr>ServerName = '''', RootCAs = None\<rparr>),
                         WithDefaultCallOptions [MaxCallRecvMsgSize 209715200]])
                     (GotConn (ClientConn 0)),
                  Ev (Cleanup (CloseConn (ClientConn 0))) Done]\<rparr>)
   \<and> (TLSPath alice_token = '''' \<and> MacPath alice_token \<noteq> ''''
      \<and> ReadFile_result world_ok (trace newT) (MacPath alice_token) = Inr [1, 2, 3]
      \<and> UnmarshalBinary world_ok [1, 2, 3] = Inr (Macaroon [1, 2, 3])
      \<and> NewMacaroonCredential world_ok (Macaroon [1, 2, 3])
          = Inr (MacaroonCredential (Macaroon [1, 2, 3])))
   \<and> getTapClient world_ok alice_token newT =
       (Inr \<lparr>client_cfg = alice_token,
             TaprootAssetsClient = NewTaprootAssetsClient (ClientConn 1),
             UniverseClient = NewUniverseClient (ClientConn 1),
             MintClient = NewMintClient (ClientConn 1),
             AssetWalletClient = NewAssetWalletClient (ClientConn 1)\<rparr>,
        \<lparr>cleanups = [CloseConn (ClientConn 1)], failed = False,
         trace = [Ev (ReadFile ''alice/admin.macaroon'') (GotBytes [1, 2, 3]),
                  Ev (DialContext ''localhost:10029''
                        [WithTransportCredentials (NewTLS \<lparr>ServerName = '''', RootCAs = None\<rparr>),
                         WithDefaultCallOptions [MaxCallRecvMsgSize 209715200],
                         WithPerRPCCredentials (MacaroonCredential (Macaroon [1, 2, 3]))])
                     (GotConn (ClientConn 1)),
                  Ev (Cleanup (CloseConn (ClientConn 1))) Done]\<rparr>)
   \<and> (TLSPath alice_tls \<noteq> '''' \<and> MacPath alice_tls = ''''
      \<and> ReadFile_result world_ok (trace newT) (TLSPath alice_tls) = Inr [1, 2, 3]
      \<and> parsePEMCertificates world_ok [1, 2, 3] \<noteq> [])
   \<and> getTapClient world_ok alice_tls newT =
       (Inr \<lparr>client_cfg = alice_tls,
             TaprootAssetsClient = NewTaprootAssetsClient (ClientConn 1),
             UniverseClient = NewUniverseClient (ClientConn 1),
             MintClient = NewMintClient (ClientConn 1),
             AssetWalletClient = NewAssetWalletClient (ClientConn 1)\<rparr>,
        \<lparr>cleanups = [CloseConn (ClientConn 1)], failed = False,
         trace = [Ev (ReadFile ''alice/tls.cert'') (GotBytes [1, 2, 3]),
                  Ev (DialContext ''localhost:10029''
                        [WithTransportCredentials
                           (NewTLS \<lparr>ServerName = '''', RootCAs = Some [[1, 2, 3]]\<rparr>),
                         WithDefaultCallOptions [MaxCallRecvMsgSize 209715200]])
                     (GotConn (ClientConn 1)),
                  Ev (Cleanup (CloseConn (ClientConn 1))) Done]\<rparr>)
   \<and> getTapClient world_unreadable alice_secure newT =
       (Inl (NoErrorFailed ''no such file''),
        \<lparr>cleanups = [], failed = True,
         trace = [Ev (ReadFile ''alice/tls.cert'') (Failed ''no such file'')]\<rparr>)
   \<and> TLSPath alice_secure \<noteq> ''''
   \<and> last [Ev (ReadFile ''alice/tls.cert'') (Failed ''no such file'')]
       = Ev (ReadFile (TLSPath alice_secure)) (Failed ''no such file'')"
proof -
  have a: "TLSPath alice_plain = '''' \<and> MacPath alice_plain = ''''"
    by (simp add: example_defs)
  note a1 = a [THEN conjunct1] and a2 = a [THEN conjunct2]
  have tok: "TLSPath alice_token = '''' \<and> MacPath alice_token \<noteq> ''''
      \<and> ReadFile_result world_ok (trace newT) (MacPath alice_token) = Inr [1, 2, 3]
      \<and> UnmarshalBinary world_ok [1, 2, 3] = Inr (Macaroon [1, 2, 3])
      \<and> NewMacaroonCredential world_ok (Macaroon [1, 2, 3])
          = Inr (MacaroonCredential (Macaroon [1, 2, 3]))"
    by (simp add: example_defs)
  have tls: "TLSPath alice_tls \<noteq> '''' \<and> MacPath alice_tls = ''''
      \<and> ReadFile_result world_ok (trace newT) (TLSPath alice_tls) = Inr [1, 2, 3]
      \<and> parsePEMCertificates world_ok [1, 2, 3] \<noteq> []"
    by (simp add: example_defs)
  have b: "getTapClient world_unreadable alice_secure newT =
       (Inl (NoErrorFailed ''no such file''),
        \<lparr>cleanups = [], failed = True,
         trace = [Ev (ReadFile ''alice/tls.cert'') (Failed ''no such file'')]\<rparr>)"
    by (simp add: getTapClient_def monad_defs example_defs)
  note c = getTapClient_no_paths [of alice_plain world_ok newT, THEN conjunct1, THEN mp, OF a]
  note k = getTapClient_no_paths
      [where cfg = alice_token and w = world_ok and t = newT and macBytes = "[1, 2, 3]"
         and mac = "Macaroon [1, 2, 3]" and macCred = "MacaroonCredential (Macaroon [1, 2, 3])",
       THEN conjunct2, THEN conjunct1, THEN mp, OF tok]
  note s = getTapClient_no_paths
      [where cfg = alice_tls and w = world_ok and t = newT and pem = "[1, 2, 3]",
       THEN conjunct2, THEN conjunct2, THEN conjunct1, THEN mp, OF tls]
  note d = getTapClient_no_paths [of alice_secure world_unreadable newT,
      THEN conjunct2, THEN conjunct2, THEN conjunct2, THEN spec, THEN spec, THEN mp, OF b]
  have c': "getTapClient world_ok alice_plain newT =
       (Inr \<lparr>client_cfg = alice_plain,
             TaprootAssetsClient = NewTaprootAssetsClient (ClientConn 0),
             UniverseClient = NewUniverseClient (ClientConn 0),
             MintClient = NewMintClient (ClientConn 0),
             AssetWalletClient = NewAssetWalletClient (ClientConn 0)\<rparr>,
        \<lparr>cleanups = [CloseConn (ClientConn 0)], failed = False,
         trace = [Ev (DialContext ''localhost:10029''
                        [WithTransportCredentials (NewTLS \<lparr>ServerName = '''', RootCAs = None\<rparr>),
                         WithDefaultCallOptions [MaxCallRecvMsgSize 209715200]])
                     (GotConn (ClientConn 0)),
                  Ev (Cleanup (CloseConn (ClientConn 0))) Done]\<rparr>)"
    unfolding c
    by (simp add: example_defs tls_Config_zero_def maxMsgRecvSize_def MaxGrpcMsgSize_def)
  have k': "getTapClient world_ok alice_token newT =
       (Inr \<lparr>client_cfg = alice_token,
             TaprootAssetsClient = NewTaprootAssetsClient (ClientConn 1),
             UniverseClient = NewUniverseClient (ClientConn 1),
             MintClient = NewMintClient (ClientConn 1),
             AssetWalletClient = NewAssetWalletClient (ClientConn 1)\<rparr>,
        \<lparr>cleanups = [CloseConn (ClientConn 1)], failed = False,
         trace = [Ev (ReadFile ''alice/admin.macaroon'') (GotBytes [1, 2, 3]),
                  Ev (DialContext ''localhost:10029''
                        [WithTransportCredentials (NewTLS \<lparr>ServerName = '''', RootCAs = None\<rparr>),
                         WithDefaultCallOptions [MaxCallRecvMsgSize 209715200],
                         WithPerRPCCredentials (MacaroonCredential (Macaroon [1, 2, 3]))])
                     (GotConn (ClientConn 1)),
                  Ev (Cleanup (CloseConn (ClientConn 1))) Done]\<rparr>)"
    unfolding k
    by (simp add: example_defs tls_Config_zero_def maxMsgRecvSize_def MaxGrpcMsgSize_def)
  have s': "getTapClient world_ok alice_tls newT =
       (Inr \<lparr>client_cfg = alice_tls,
             TaprootAssetsClient = NewTaprootAssetsClient (ClientConn 1),
             UniverseClient = NewUniverseClient (ClientConn 1),
             MintClient = NewMintClient (ClientConn 1),
             AssetWalletClient = NewAssetWalletClient (ClientConn 1)\<rparr>,
        \<lparr>cleanups = [CloseConn (ClientConn 1)], failed = False,
         trace = [Ev (ReadFile ''alice/tls.cert'') (GotBytes [1, 2, 3]),
                  Ev (DialContext ''localhost:10029''
                        [WithTransportCredentials
                           (NewTLS \<lparr>ServerName = '''', RootCAs = Some [[1, 2, 3]]\<rparr>),
                         WithDefaultCallOptions [MaxCallRecvMsgSize 209715200]])
                     (GotConn (ClientConn 1)),
                  Ev (Cleanup (CloseConn (ClientConn 1))) Done]\<rparr>)"
    unfolding s
    by (simp add: example_defs NewClientTLSFromCert_def maxMsgRecvSize_def MaxGrpcMsgSize_def)
  have d': "TLSPath alice_secure \<noteq> ''''
   \<and> last [Ev (ReadFile ''alice/tls.cert'') (Failed ''no such file'')]
       = Ev (ReadFile (TLSPath alice_secure)) (Failed ''no such file'')"
    using d by (simp add: example_defs)
  show ?thesis
    by (intro conjI a1 a2 c' tok k' tls s' b d' [THEN conjunct1] d' [THEN conjunct2])
qed

text \<open>
  C8. Every dial that \<^verbatim>\<open>getTapClient\<close> issues targets the formatted address and carries
  an option list of this shape: the transport credentials first, the call option
  \<^verbatim>\<open>maxMsgRecvSize\<close> second, and the per-call macaroon credential third exactly when
  the token path is configured. The receive-size option is in every such list.
\<close>

theorem getTapClient_dial_options:
  assumes "Ev (DialContext target opts) out \<in> set (events_since t (snd (getTapClient w cfg t)))"
  shows "target = tapAddr cfg
         \<and> (\<exists>creds.
              (if TLSPath cfg = '''' then creds = NewTLS tls_Config_zero
               else \<exists>cp. cp \<noteq> [] \<and> creds = NewClientTLSFromCert cp '''')
              \<and> (if MacPath cfg = '''' then
                    opts = [WithTransportCredentials creds,
                            WithDefaultCallOptions [maxMsgRecvSize]]
                  else \<exists>macCred.
                    opts = [WithTransportCredentials creds,
                            WithDefaultCallOptions [maxMsgRecvSize],
                            WithPerRPCCredentials macCred]))"
  using assms unfolding getTapClient_def tapAddr_def
  by (auto simp: monad_defs since_defs Let_def split: sum.splits prod.splits if_splits)

theorem getTapClient_dial_options_witness:
  "Ev (DialContext ''localhost:10029''
         [WithTransportCredentials (NewClientTLSFromCert [[1, 2, 3]] ''''),
          WithDefaultCallOptions [maxMsgRecvSize],
          WithPerRPCCredentials (MacaroonCredential (Macaroon [1, 2, 3]))])
      (GotConn (ClientConn 2))
     \<in> set (events_since newT (snd (getTapClient world_ok alice_secure newT)))
   \<and> ''localhost:10029'' = tapAddr alice_secure
   \<and> TLSPath alice_secure \<noteq> '''' \<and> MacPath alice_secure \<noteq> ''''"
proof -
  have a: "Ev (DialContext ''localhost:10029''
         [WithTransportCredentials (NewClientTLSFromCert [[1, 2, 3]] ''''),
          WithDefaultCallOptions [maxMsgRecvSize],
          WithPerRPCCredentials (MacaroonCredential (Macaroon [1, 2, 3]))])
      (GotConn (ClientConn 2))
     \<in> set (events_since newT (snd (getTapClient world_ok alice_secure newT)))"
    by (simp add: getTapClient_def monad_defs since_defs example_defs)
  have b: "TLSPath alice_secure \<noteq> '''' \<and> MacPath alice_secure \<noteq> ''''"
    by (simp add: example_defs)
  show ?thesis
    using a b getTapClient_dial_options [OF a] by simp
qed

subsection \<open>getBitcoinConn\<close>

text \<open>
  C9. In \<^verbatim>\<open>getBitcoinConn\<close>, the connection configuration has TLS disabled exactly when
  the TLS path is empty. With an empty path no file is read and the configuration has no
  certificate bytes; with a path set the file is read first, a read error is fatal and no
  client is constructed, and otherwise the bytes read are the configuration's
  certificates, with TLS enabled.
\<close>

theorem getBitcoinConn_tls:
  "(BitcoinTLSPath cfg = '''' \<longrightarrow>
      (let connCfg = \<lparr>ConnHost = Sprintf_s_d (BitcoinHost cfg) (BitcoinPort cfg),
                      ConnUser = BitcoinUser cfg, ConnPass = BitcoinPassword cfg,
                      HTTPPostMode = True, DisableTLS = True, Certificates = []\<rparr>
       in calls_since t (snd (getBitcoinConn w cfg t)) = [New connCfg]
          \<and> fst (getBitcoinConn w cfg t) =
              (case New_result w (trace t) connCfg of
                 Inl e \<Rightarrow> Inl (NoErrorFailed e) | Inr client \<Rightarrow> Inr client)))
   \<and> (BitcoinTLSPath cfg \<noteq> '''' \<longrightarrow>
        (case ReadFile_result w (trace t) (BitcoinTLSPath cfg) of
           Inl e \<Rightarrow>
             getBitcoinConn w cfg t =
               (Inl (NoErrorFailed e),
                t\<lparr>trace := trace t @ [Ev (ReadFile (BitcoinTLSPath cfg)) (Failed e)],
                  failed := True\<rparr>)
         | Inr rpcCert \<Rightarrow>
             (let connCfg = \<lparr>ConnHost = Sprintf_s_d (BitcoinHost cfg) (BitcoinPort cfg),
                             ConnUser = BitcoinUser cfg, ConnPass = BitcoinPassword cfg,
                             HTTPPostMode = True, DisableTLS = False,
                             Certificates = rpcCert\<rparr>
              in calls_since t (snd (getBitcoinConn w cfg t)) =
                   [ReadFile (BitcoinTLSPath cfg), New connCfg]
                 \<and> fst (getBitcoinConn w cfg t) =
                     (case New_result w
                             (trace t @ [Ev (ReadFile (BitcoinTLSPath cfg)) (GotBytes rpcCert)])
                             connCfg of
                        Inl e \<Rightarrow> Inl (NoErrorFailed e) | Inr client \<Rightarrow> Inr client))))
   \<and> (\<forall>connCfg out. Ev (New connCfg) out \<in> set (events_since t (snd (getBitcoinConn w cfg t)))
         \<longrightarrow> DisableTLS connCfg = (BitcoinTLSPath cfg = ''''))"
  unfolding getBitcoinConn_def
  by (auto simp: monad_defs since_defs Let_def split: sum.splits prod.splits if_splits)

theorem getBitcoinConn_tls_witness:
  "BitcoinTLSPath bitcoin_plain = ''''
   \<and> calls_since newT (snd (getBitcoinConn world_ok bitcoin_plain newT)) =
       [New \<lparr>ConnHost = ''localhost:18443'', ConnUser = ''lightning'', ConnPass = ''lightning'',
             HTTPPostMode = True, DisableTLS = True, Certificates = []\<rparr>]
   \<and> fst (getBitcoinConn world_ok bitcoin_plain newT) = Inr (Client 0)
   \<and> BitcoinTLSPath bitcoin_tls \<noteq> ''''
   \<and> calls_since newT (snd (getBitcoinConn world_ok bitcoin_tls newT)) =
       [ReadFile ''bitcoin/rpc.cert'',
        New \<lparr>ConnHost = ''localhost:18443'', ConnUser = ''lightning'', ConnPass = ''lightning'',
             HTTPPostMode = True, DisableTLS = False, Certificates = [1, 2, 3]\<rparr>]
   \<and> fst (getBitcoinConn world_ok bitcoin_tls newT) = Inr (Client 1)
   \<and> getBitcoinConn world_unreadable bitcoin_tls newT =
       (Inl (NoErrorFailed ''no such file''),
        \<lparr>cleanups = [], failed = True,
         trace = [Ev (ReadFile ''bitcoin/rpc.cert'') (Failed ''no such file'')]\<rparr>)
   \<and> Ev (New \<lparr>ConnHost = ''localhost:18443'', ConnUser = ''lightning'', ConnPass = ''lightning'',
             HTTPPostMode = True, DisableTLS = False, Certificates = [1, 2, 3]\<rparr>)
        (GotClient (Client 1))
       \<in> set (events_since newT (snd (getBitcoinConn world_ok bitcoin_tls newT)))"
proof -
  have a: "BitcoinTLSPath bitcoin_plain = ''''"
    by (simp add: example_defs)
  have b: "BitcoinTLSPath bitcoin_tls \<noteq> ''''"
    by (simp add: example_defs)
  have c: "Ev (New \<lparr>ConnHost = ''localhost:18443'', ConnUser = ''lightning'', ConnPass = ''lightning'',
             HTTPPostMode = True, DisableTLS = False, Certificates = [1, 2, 3]\<rparr>)
        (GotClient (Client 1))
       \<in> set (events_since newT (snd (getBitcoinConn world_ok bitcoin_tls newT)))"
    by (simp add: getBitcoinConn_def monad_defs since_defs example_defs)
  show ?thesis
    using a b c
      getBitcoinConn_tls [of bitcoin_plain newT world_ok]
      getBitcoinConn_tls [of bitcoin_tls newT world_ok]
      getBitcoinConn_tls [of bitcoin_tls newT world_unreadable]
    by (simp add: example_defs)
qed

subsection \<open>initClients\<close>

text \<open>
  C4. The calls of \<^verbatim>\<open>initClients\<close> follow one fixed order. Whatever the collaborators
  answer and wherever the run stops, the calls made are an initial segment of the
  sequence: participant A's reads, dial, close registration and probe; then participant
  B's reads, dial, close registration and probe; then the chain stage's optional read,
  client construction, mining action and registration of the second mining action. So no
  call of a later stage ever precedes a call of an earlier one.
\<close>

theorem initClients_fixed_order:
  "\<exists>optsA connA optsB connB connCfg client.
     prefix (calls_since t (snd (initClients w cfg t)))
       (participant_plan (Tapd (Alice cfg)) optsA connA @
        participant_plan (Tapd (Bob cfg)) optsB connB @
        chain_plan (Bitcoin cfg) connCfg client)"
  by (rule initClients_plan)

text \<open>
  C10. The registration of the close is the last call of a successful \<^verbatim>\<open>getTapClient\<close>,
  so it is made inside that function. In every run of \<^verbatim>\<open>initClients\<close>, whatever its
  outcome, a probe of a channel is preceded by the registration of that channel's close;
  and every channel that a dial returned has its close among the registered cleanups and
  is closed when the cleanups run at test end, after whatever the test body did in
  between.
\<close>

theorem initClients_channels_released:
  "(getTapClient w tapCfg s = (Inr cl, s')
    \<longrightarrow> last (calls_since s s') = Cleanup (CloseConn (conn_of cl)))
   \<and> (\<forall>pre conn post.
        calls_since t (snd (initClients w cfg t)) = pre @ GetInfo conn # post
        \<longrightarrow> Cleanup (CloseConn conn) \<in> set pre)
   \<and> (\<forall>target opts conn.
        Ev (DialContext target opts) (GotConn conn)
          \<in> set (events_since t (snd (initClients w cfg t)))
        \<longrightarrow> CloseConn conn \<in> set (cleanups (snd (initClients w cfg t)))
            \<and> Close conn \<in> set (calls_since
                  ((snd (initClients w cfg t))\<lparr>trace := trace (snd (initClients w cfg t)) @ body\<rparr>)
                  (runCleanup w
                    ((snd (initClients w cfg t))\<lparr>trace := trace (snd (initClients w cfg t)) @ body\<rparr>))))"
proof (intro conjI allI impI)
  assume "getTapClient w tapCfg s = (Inr cl, s')"
  from getTapClient_Inr [OF this]
  show "last (calls_since s s') = Cleanup (CloseConn (conn_of cl))"
    by (auto simp: since_defs)
next
  fix pre conn post
  assume "calls_since t (snd (initClients w cfg t)) = pre @ GetInfo conn # post"
  then show "Cleanup (CloseConn conn) \<in> set pre"
    by (rule initClients_probe_after_registration)
next
  fix target opts conn
  let ?t' = "snd (initClients w cfg t)"
  assume "Ev (DialContext target opts) (GotConn conn) \<in> set (events_since t ?t')"
  then have "conn \<in> set (dialed (events_since t ?t'))"
    using set_dialed by blast
  then have "CloseConn conn \<in> set (map CloseConn (dialed (events_since t ?t')))"
    by simp
  then have reg: "CloseConn conn \<in> set (cleanups ?t')"
    by (subst initClients_dialed_closers) simp
  show "CloseConn conn \<in> set (cleanups ?t')"
    by (rule reg)
  have "calls_since (?t'\<lparr>trace := trace ?t' @ body\<rparr>) (runCleanup w (?t'\<lparr>trace := trace ?t' @ body\<rparr>))
          = map cleanup_call (rev (cleanups ?t'))"
    by (simp add: runCleanup_calls)
  moreover from reg have "Close conn \<in> set (map cleanup_call (rev (cleanups ?t')))"
    by (metis cleanup_call.simps(1) image_eqI set_map set_rev)
  ultimately show "Close conn \<in> set (calls_since (?t'\<lparr>trace := trace ?t' @ body\<rparr>)
                  (runCleanup w (?t'\<lparr>trace := trace ?t' @ body\<rparr>)))"
    by simp
qed

theorem initClients_channels_released_witness:
  "getTapClient world_alice_down alice_plain newT = (Inr alice_client, alice_built)
   \<and> last (calls_since newT alice_built) = Cleanup (CloseConn (conn_of alice_client))
   \<and> calls_since newT (snd (initClients world_alice_down config_plain newT)) =
     [DialContext ''localhost:10029''
        [WithTransportCredentials (NewTLS tls_Config_zero),
         WithDefaultCallOptions [maxMsgRecvSize]],
      Cleanup (CloseConn (ClientConn 0))] @ GetInfo (ClientConn 0) # []
   \<and> Cleanup (CloseConn (ClientConn 0))
       \<in> set [DialContext ''localhost:10029''
                 [WithTransportCredentials (NewTLS tls_Config_zero),
                  WithDefaultCallOptions [maxMsgRecvSize]],
               Cleanup (CloseConn (ClientConn 0))]
   \<and> Ev (DialContext ''localhost:10029''
            [WithTransportCredentials (NewTLS tls_Config_zero),
             WithDefaultCallOptions [maxMsgRecvSize]])
         (GotConn (ClientConn 0))
       \<in> set (events_since newT (snd (initClients world_alice_down config_plain newT)))
   \<and> CloseConn (ClientConn 0) \<in> set (cleanups (snd (initClients world_alice_down config_plain newT)))
   \<and> Close (ClientConn 0)
       \<in> set (calls_since
           ((snd (initClients world_alice_down config_plain newT))
              \<lparr>trace := trace (snd (initClients world_alice_down config_plain newT)) @ []\<rparr>)
           (runCleanup world_alice_down
             ((snd (initClients world_alice_down config_plain newT))
              \<lparr>trace := trace (snd (initClients world_alice_down config_plain newT)) @ []\<rparr>)))"
proof -
  let ?dial = "DialContext ''localhost:10029''
        [WithTransportCredentials (NewTLS tls_Config_zero),
         WithDefaultCallOptions [maxMsgRecvSize]]"
  have g: "getTapClient world_alice_down alice_plain newT = (Inr alice_client, alice_built)"
    by (simp add: getTapClient_def monad_defs example_defs)
  have a: "calls_since newT (snd (initClients world_alice_down config_plain newT)) =
     [?dial, Cleanup (CloseConn (ClientConn 0))] @ GetInfo (ClientConn 0) # []"
    unfolding alice_down_run by (simp add: since_defs newT_def)
  have b: "Ev ?dial (GotConn (ClientConn 0))
       \<in> set (events_since newT (snd (initClients world_alice_down config_plain newT)))"
    unfolding alice_down_run by (simp add: since_defs newT_def)
  note rel = initClients_channels_released
      [where w = world_alice_down and tapCfg = alice_plain and s = newT and cl = alice_client
         and s' = alice_built and t = newT and cfg = config_plain and body = "[]"]
  note l = rel [THEN conjunct1, THEN mp, OF g]
  note c = rel [THEN conjunct2, THEN conjunct1, THEN spec, THEN spec, THEN spec, THEN mp, OF a]
  note d = rel [THEN conjunct2, THEN conjunct2, THEN spec, THEN spec, THEN spec, THEN mp, OF b]
  show ?thesis
    by (intro conjI g l a b c d [THEN conjunct1] d [THEN conjunct2])
qed

text \<open>
  C3. When the probe of a freshly built participant returns an error, \<^verbatim>\<open>initClients\<close>
  stops there with the fatal \<^verbatim>\<open>require.NoError\<close> failure: the final state is the state
  after that participant's \<^verbatim>\<open>getTapClient\<close> plus the failed probe, and nothing else. If
  it is participant A's probe, the run holds the single dial of A (participant B is never
  built), no client construction and no mining action; if it is participant B's probe,
  it holds no client construction and no mining action.
\<close>

theorem initClients_probe_failure:
  "(getTapClient w (Tapd (Alice cfg)) t = (Inr alice, t1)
      \<and> GetInfo_result w (trace t1) (conn_of alice) = Inl e
    \<longrightarrow> initClients w cfg t =
          (Inl (NoErrorFailed e),
           t1\<lparr>trace := trace t1 @ [Ev (GetInfo (conn_of alice)) (Failed e)], failed := True\<rparr>)
        \<and> (\<exists>opts. filter is_DialContext (calls_since t (snd (initClients w cfg t))) =
                     [DialContext (tapAddr (Tapd (Alice cfg))) opts])
        \<and> filter is_New (calls_since t (snd (initClients w cfg t))) = []
        \<and> filter is_MineBlocks (calls_since t (snd (initClients w cfg t))) = [])
   \<and> (getTapClient w (Tapd (Alice cfg)) t = (Inr alice, t1)
      \<and> GetInfo_result w (trace t1) (conn_of alice) = Inr ()
      \<and> getTapClient w (Tapd (Bob cfg)) (log (GetInfo (conn_of alice)) Done t1) = (Inr bob, t2)
      \<and> GetInfo_result w (trace t2) (conn_of bob) = Inl e
    \<longrightarrow> initClients w cfg t =
          (Inl (NoErrorFailed e),
           t2\<lparr>trace := trace t2 @ [Ev (GetInfo (conn_of bob)) (Failed e)], failed := True\<rparr>)
        \<and> filter is_New (calls_since t (snd (initClients w cfg t))) = []
        \<and> filter is_MineBlocks (calls_since t (snd (initClients w cfg t))) = [])"
proof (intro conjI impI; elim conjE)
  assume a: "getTapClient w (Tapd (Alice cfg)) t = (Inr alice, t1)"
    and p: "GetInfo_result w (trace t1) (conn_of alice) = Inl e"
  note r = initClients_alice_probe_fails [OF a p]
  from getTapClient_Inr [OF a] obtain opts rs where
    tr: "trace t1 = trace t @ rs @
             [Ev (DialContext (tapAddr (Tapd (Alice cfg))) opts) (GotConn (conn_of alice)),
              Ev (Cleanup (CloseConn (conn_of alice))) Done]"
      "map call_of rs = tap_reads (Tapd (Alice cfg))"
    by blast
  show "initClients w cfg t =
          (Inl (NoErrorFailed e),
           t1\<lparr>trace := trace t1 @ [Ev (GetInfo (conn_of alice)) (Failed e)], failed := True\<rparr>)"
    by (rule r)
  show "\<exists>opts. filter is_DialContext (calls_since t (snd (initClients w cfg t))) =
                     [DialContext (tapAddr (Tapd (Alice cfg))) opts]"
    by (simp add: r tr since_defs tap_reads_filters)
  show "filter is_New (calls_since t (snd (initClients w cfg t))) = []"
    by (simp add: r tr since_defs tap_reads_filters)
  show "filter is_MineBlocks (calls_since t (snd (initClients w cfg t))) = []"
    by (simp add: r tr since_defs tap_reads_filters)
next
  assume a: "getTapClient w (Tapd (Alice cfg)) t = (Inr alice, t1)"
    and p: "GetInfo_result w (trace t1) (conn_of alice) = Inr ()"
    and b: "getTapClient w (Tapd (Bob cfg)) (log (GetInfo (conn_of alice)) Done t1) = (Inr bob, t2)"
    and q: "GetInfo_result w (trace t2) (conn_of bob) = Inl e"
  note r = initClients_bob_probe_fails [OF a p b q]
  from getTapClient_Inr [OF a] obtain optsA rsA where
    trA: "trace t1 = trace t @ rsA @
             [Ev (DialContext (tapAddr (Tapd (Alice cfg))) optsA) (GotConn (conn_of alice)),
              Ev (Cleanup (CloseConn (conn_of alice))) Done]"
      "map call_of rsA = tap_reads (Tapd (Alice cfg))"
    by blast
  from getTapClient_Inr [OF b] obtain optsB rsB where
    trB: "trace t2 = trace (log (GetInfo (conn_of alice)) Done t1) @ rsB @
             [Ev (DialContext (tapAddr (Tapd (Bob cfg))) optsB) (GotConn (conn_of bob)),
              Ev (Cleanup (CloseConn (conn_of bob))) Done]"
      "map call_of rsB = tap_reads (Tapd (Bob cfg))"
    by blast
  show "initClients w cfg t =
          (Inl (NoErrorFailed e),
           t2\<lparr>trace := trace t2 @ [Ev (GetInfo (conn_of bob)) (Failed e)], failed := True\<rparr>)"
    by (rule r)
  show "filter is_New (calls_since t (snd (initClients w cfg t))) = []"
    by (simp add: r trA trB since_defs tap_reads_filters log_def)
  show "filter is_MineBlocks (calls_since t (snd (initClients w cfg t))) = []"
    by (simp add: r trA trB since_defs tap_reads_filters log_def)
qed

theorem initClients_probe_failure_witness:
  "getTapClient world_alice_down (Tapd (Alice config_plain)) newT = (Inr alice_client, alice_built)
   \<and> GetInfo_result world_alice_down (trace alice_built) (conn_of alice_client)
       = Inl ''connection refused''
   \<and> initClients world_alice_down config_plain newT =
       (Inl (NoErrorFailed ''connection refused''),
        alice_built\<lparr>trace := trace alice_built
                        @ [Ev (GetInfo (conn_of alice_client)) (Failed ''connection refused'')],
                    failed := True\<rparr>)
   \<and> filter is_New (calls_since newT (snd (initClients world_alice_down config_plain newT))) = []
   \<and> filter is_MineBlocks
        (calls_since newT (snd (initClients world_alice_down config_plain newT))) = []
   \<and> getTapClient world_bob_down (Tapd (Alice config_plain)) newT = (Inr alice_client, alice_built)
   \<and> GetInfo_result world_bob_down (trace alice_built) (conn_of alice_client) = Inr ()
   \<and> getTapClient world_bob_down (Tapd (Bob config_plain))
        (log (GetInfo (conn_of alice_client)) Done alice_built) = (Inr bob_client, bob_built)
   \<and> GetInfo_result world_bob_down (trace bob_built) (conn_of bob_client)
       = Inl ''connection refused''
   \<and> initClients world_bob_down config_plain newT =
       (Inl (NoErrorFailed ''connection refused''),
        bob_built\<lparr>trace := trace bob_built
                      @ [Ev (GetInfo (conn_of bob_client)) (Failed ''connection refused'')],
                  failed := True\<rparr>)
   \<and> filter is_New (calls_since newT (snd (initClients world_bob_down config_plain newT))) = []
   \<and> filter is_MineBlocks
        (calls_since newT (snd (initClients world_bob_down config_plain newT))) = []"
proof -
  have a1: "getTapClient world_alice_down (Tapd (Alice config_plain)) newT
              = (Inr alice_client, alice_built)"
    by (simp add: getTapClient_def monad_defs example_defs)
  have p1: "GetInfo_result world_alice_down (trace alice_built) (conn_of alice_client)
              = Inl ''connection refused''"
    by (simp add: example_defs)
  have a2: "getTapClient world_bob_down (Tapd (Alice config_plain)) newT
              = (Inr alice_client, alice_built)"
    by (simp add: getTapClient_def monad_defs example_defs)
  have p2: "GetInfo_result world_bob_down (trace alice_built) (conn_of alice_client) = Inr ()"
    by (simp add: example_defs conn_of_def)
  have b2: "getTapClient world_bob_down (Tapd (Bob config_plain))
        (log (GetInfo (conn_of alice_client)) Done alice_built) = (Inr bob_client, bob_built)"
    by (simp add: getTapClient_def monad_defs example_defs conn_of_def)
  have q2: "GetInfo_result world_bob_down (trace bob_built) (conn_of bob_client)
              = Inl ''connection refused''"
    by (simp add: example_defs conn_of_def)
  note first = initClients_probe_failure
      [where w = world_alice_down and cfg = config_plain and t = newT and alice = alice_client
         and ?t1.0 = alice_built and e = "''connection refused''",
       THEN conjunct1, THEN mp, OF conjI [OF a1 p1]]
  note second = initClients_probe_failure
      [where w = world_bob_down and cfg = config_plain and t = newT and alice = alice_client
         and ?t1.0 = alice_built and bob = bob_client and ?t2.0 = bob_built
         and e = "''connection refused''",
       THEN conjunct2, THEN mp, OF conjI [OF a2 conjI [OF p2 conjI [OF b2 q2]]]]
  show ?thesis
    by (intro conjI a1 p1 a2 p2 b2 q2
        first [THEN conjunct1] first [THEN conjunct2, THEN conjunct2, THEN conjunct1]
        first [THEN conjunct2, THEN conjunct2, THEN conjunct2]
        second [THEN conjunct1] second [THEN conjunct2, THEN conjunct1]
        second [THEN conjunct2, THEN conjunct2])
qed

text \<open>
  C2. With both participants on default trust (no TLS path; a token, where one is
  configured, that reads, decodes and wraps), the chain backend without TLS, and
  collaborators that answer every dial, probe, client construction and mining action,
  \<^verbatim>\<open>initClients\<close> returns its three handles. Every successful run, whatever the
  configuration, makes the calls listed: the two participants' setups and then the client
  construction, directly followed by the one mining action of the setup and the
  registration of the cleanup. When the cleanups run at test end, after whatever the test
  body did, the fixture's three come first: one more mining action and the close of the
  two channels. On a test that had no cleanups before, setup and teardown together issue
  the mining action exactly twice.
\<close>

theorem initClients_lifecycle:
  "(TLSPath (Tapd (Alice cfg)) = '''' \<and> TLSPath (Tapd (Bob cfg)) = ''''
      \<and> BitcoinTLSPath (Bitcoin cfg) = ''''
      \<and> (MacPath (Tapd (Alice cfg)) \<noteq> '''' \<longrightarrow>
           (\<forall>h. \<exists>b m c. ReadFile_result w h (MacPath (Tapd (Alice cfg))) = Inr b
                     \<and> UnmarshalBinary w b = Inr m \<and> NewMacaroonCredential w m = Inr c))
      \<and> (MacPath (Tapd (Bob cfg)) \<noteq> '''' \<longrightarrow>
           (\<forall>h. \<exists>b m c. ReadFile_result w h (MacPath (Tapd (Bob cfg))) = Inr b
                     \<and> UnmarshalBinary w b = Inr m \<and> NewMacaroonCredential w m = Inr c))
      \<and> (\<forall>h target opts. \<exists>conn. DialContext_result w h target opts = Inr conn)
      \<and> (\<forall>h conn. GetInfo_result w h conn = Inr ())
      \<and> (\<forall>h connCfg. \<exists>client. New_result w h connCfg = Inr client)
      \<and> (\<forall>h client. MineBlocks_result w h client 1 0 = Inr ())
    \<longrightarrow> (\<exists>alice bob client t'. initClients w cfg t = (Inr (alice, bob, client), t')))
   \<and> (initClients w cfg t = (Inr (alice, bob, client), t')
    \<longrightarrow> client_cfg alice = Tapd (Alice cfg) \<and> client_cfg bob = Tapd (Bob cfg)
        \<and> (\<exists>optsA optsB connCfg.
              calls_since t t' =
                tap_reads (Tapd (Alice cfg)) @
                [DialContext (tapAddr (Tapd (Alice cfg))) optsA,
                 Cleanup (CloseConn (conn_of alice)), GetInfo (conn_of alice)] @
                tap_reads (Tapd (Bob cfg)) @
                [DialContext (tapAddr (Tapd (Bob cfg))) optsB,
                 Cleanup (CloseConn (conn_of bob)), GetInfo (conn_of bob)] @
                chain_reads (Bitcoin cfg) @
                [New connCfg, MineBlocks client 1 0, Cleanup (MineCleanup client)])
        \<and> filter is_MineBlocks (calls_since t t') = [MineBlocks client 1 0]
        \<and> calls_since (t'\<lparr>trace := trace t' @ body\<rparr>)
              (runCleanup w (t'\<lparr>trace := trace t' @ body\<rparr>))
            = [MineBlocks client 1 0, Close (conn_of bob), Close (conn_of alice)]
              @ map cleanup_call (rev (cleanups t))
        \<and> (cleanups t = [] \<longrightarrow>
             filter is_MineBlocks
               (calls_since t t' @
                calls_since (t'\<lparr>trace := trace t' @ body\<rparr>)
                  (runCleanup w (t'\<lparr>trace := trace t' @ body\<rparr>)))
             = [MineBlocks client 1 0, MineBlocks client 1 0]))"
proof (intro conjI impI; (elim conjE)?)
  assume "TLSPath (Tapd (Alice cfg)) = ''''" "TLSPath (Tapd (Bob cfg)) = ''''"
    "BitcoinTLSPath (Bitcoin cfg) = ''''"
    "MacPath (Tapd (Alice cfg)) \<noteq> '''' \<longrightarrow>
           (\<forall>h. \<exists>b m c. ReadFile_result w h (MacPath (Tapd (Alice cfg))) = Inr b
                     \<and> UnmarshalBinary w b = Inr m \<and> NewMacaroonCredential w m = Inr c)"
    "MacPath (Tapd (Bob cfg)) \<noteq> '''' \<longrightarrow>
           (\<forall>h. \<exists>b m c. ReadFile_result w h (MacPath (Tapd (Bob cfg))) = Inr b
                     \<and> UnmarshalBinary w b = Inr m \<and> NewMacaroonCredential w m = Inr c)"
    "\<forall>h target opts. \<exists>conn. DialContext_result w h target opts = Inr conn"
    "\<forall>h conn. GetInfo_result w h conn = Inr ()"
    "\<forall>h connCfg. \<exists>client. New_result w h connCfg = Inr client"
    "\<forall>h client. MineBlocks_result w h client 1 0 = Inr ()"
  then show "\<exists>alice bob client t'. initClients w cfg t = (Inr (alice, bob, client), t')"
    by (rule initClients_valid_succeeds)
next
  assume run: "initClients w cfg t = (Inr (alice, bob, client), t')"
  from initClients_success_shape(1) [OF run]
  obtain optsA optsB connCfg where calls:
    "calls_since t t' =
                tap_reads (Tapd (Alice cfg)) @
                [DialContext (tapAddr (Tapd (Alice cfg))) optsA,
                 Cleanup (CloseConn (conn_of alice)), GetInfo (conn_of alice)] @
                tap_reads (Tapd (Bob cfg)) @
                [DialContext (tapAddr (Tapd (Bob cfg))) optsB,
                 Cleanup (CloseConn (conn_of bob)), GetInfo (conn_of bob)] @
                chain_reads (Bitcoin cfg) @
                [New connCfg, MineBlocks client 1 0, Cleanup (MineCleanup client)]"
    by blast
  note down = teardown_after_success_general [OF run, of body]
  show "client_cfg alice = Tapd (Alice cfg)"
    by (rule initClients_success_shape(4) [OF run])
  show "client_cfg bob = Tapd (Bob cfg)"
    by (rule initClients_success_shape(5) [OF run])
  show "\<exists>optsA optsB connCfg.
              calls_since t t' =
                tap_reads (Tapd (Alice cfg)) @
                [DialContext (tapAddr (Tapd (Alice cfg))) optsA,
                 Cleanup (CloseConn (conn_of alice)), GetInfo (conn_of alice)] @
                tap_reads (Tapd (Bob cfg)) @
                [DialContext (tapAddr (Tapd (Bob cfg))) optsB,
                 Cleanup (CloseConn (conn_of bob)), GetInfo (conn_of bob)] @
                chain_reads (Bitcoin cfg) @
                [New connCfg, MineBlocks client 1 0, Cleanup (MineCleanup client)]"
    using calls by blast
  show mined: "filter is_MineBlocks (calls_since t t') = [MineBlocks client 1 0]"
    unfolding calls by (simp add: reads_no_mining)
  show "calls_since (t'\<lparr>trace := trace t' @ body\<rparr>)
              (runCleanup w (t'\<lparr>trace := trace t' @ body\<rparr>))
            = [MineBlocks client 1 0, Close (conn_of bob), Close (conn_of alice)]
              @ map cleanup_call (rev (cleanups t))"
    by (rule down)
  show "cleanups t = [] \<Longrightarrow>
        filter is_MineBlocks
               (calls_since t t' @
                calls_since (t'\<lparr>trace := trace t' @ body\<rparr>)
                  (runCleanup w (t'\<lparr>trace := trace t' @ body\<rparr>)))
             = [MineBlocks client 1 0, MineBlocks client 1 0]"
    unfolding down using mined by simp
qed

theorem initClients_lifecycle_witness:
  "TLSPath (Tapd (Alice config_token)) = '''' \<and> TLSPath (Tapd (Bob config_token)) = ''''
   \<and> BitcoinTLSPath (Bitcoin config_token) = ''''
   \<and> MacPath (Tapd (Alice config_token)) \<noteq> ''''
   \<and> (\<forall>h. \<exists>b m c. ReadFile_result world_ok h (MacPath (Tapd (Alice config_token))) = Inr b
             \<and> UnmarshalBinary world_ok b = Inr m \<and> NewMacaroonCredential world_ok m = Inr c)
   \<and> MacPath (Tapd (Bob config_token)) = ''''
   \<and> (\<forall>h target opts. \<exists>conn. DialContext_result world_ok h target opts = Inr conn)
   \<and> (\<forall>h conn. GetInfo_result world_ok h conn = Inr ())
   \<and> (\<forall>h connCfg. \<exists>client. New_result world_ok h connCfg = Inr client)
   \<and> (\<forall>h client. MineBlocks_result world_ok h client 1 0 = Inr ())
   \<and> (\<exists>alice bob client t'.
         initClients world_ok config_token newT = (Inr (alice, bob, client), t'))
   \<and> initClients world_ok config_token newT
       = (Inr (alice_token_client, bob_token_client, Client 7), after_token_setup)
   \<and> filter is_MineBlocks (calls_since newT after_token_setup) = [MineBlocks (Client 7) 1 0]
   \<and> cleanups newT = []
   \<and> calls_since (after_token_setup\<lparr>trace := trace after_token_setup @ []\<rparr>)
         (runCleanup world_ok (after_token_setup\<lparr>trace := trace after_token_setup @ []\<rparr>))
       = [MineBlocks (Client 7) 1 0, Close (conn_of bob_token_client),
          Close (conn_of alice_token_client)] @ map cleanup_call (rev (cleanups newT))
   \<and> filter is_MineBlocks
        (calls_since newT after_token_setup @
         calls_since (after_token_setup\<lparr>trace := trace after_token_setup @ []\<rparr>)
           (runCleanup world_ok (after_token_setup\<lparr>trace := trace after_token_setup @ []\<rparr>)))
       = [MineBlocks (Client 7) 1 0, MineBlocks (Client 7) 1 0]"
proof -
  have paths: "TLSPath (Tapd (Alice config_token)) = ''''"
    "TLSPath (Tapd (Bob config_token)) = ''''"
    "BitcoinTLSPath (Bitcoin config_token) = ''''"
    "MacPath (Tapd (Alice config_token)) \<noteq> ''''"
    "MacPath (Tapd (Bob config_token)) = ''''"
    by (simp_all add: example_defs)
  have token: "\<forall>h. \<exists>b m c. ReadFile_result world_ok h (MacPath (Tapd (Alice config_token))) = Inr b
             \<and> UnmarshalBinary world_ok b = Inr m \<and> NewMacaroonCredential world_ok m = Inr c"
    by (simp add: world_ok_def)
  have reachable: "\<forall>h target opts. \<exists>conn. DialContext_result world_ok h target opts = Inr conn"
    "\<forall>h conn. GetInfo_result world_ok h conn = Inr ()"
    "\<forall>h connCfg. \<exists>client. New_result world_ok h connCfg = Inr client"
    "\<forall>h client. MineBlocks_result world_ok h client 1 0 = Inr ()"
    by (simp_all add: world_ok_def)
  have fresh: "cleanups newT = []"
    by (simp add: newT_def)
  note life = initClients_lifecycle
      [where w = world_ok and cfg = config_token and t = newT and alice = alice_token_client
         and bob = bob_token_client and client = "Client 7" and t' = after_token_setup
         and body = "[]"]
  from life [THEN conjunct1] paths token reachable
  have first: "\<exists>alice bob client t'.
         initClients world_ok config_token newT = (Inr (alice, bob, client), t')"
    by blast
  note second = life [THEN conjunct2, THEN mp, OF token_run]
  note mined = second [THEN conjunct2, THEN conjunct2, THEN conjunct2, THEN conjunct1]
  note down = second [THEN conjunct2, THEN conjunct2, THEN conjunct2, THEN conjunct2,
      THEN conjunct1]
  note twice = second [THEN conjunct2, THEN conjunct2, THEN conjunct2, THEN conjunct2,
      THEN conjunct2, THEN mp, OF fresh]
  show ?thesis
    by (intro conjI paths token reachable first token_run mined fresh down twice)
qed

text \<open>
  C1, as amended. Each successful \<^verbatim>\<open>getTapClient\<close> registers the close of the channel
  it dialed. After a successful \<^verbatim>\<open>initClients\<close> on a test without cleanups, the
  registered cleanups are the two channel closes and the orchestrator's own cleanup; that
  cleanup only repeats the mining action, and at test end the cleanups mine one block and
  close the two participant channels.
\<close>

theorem initClients_registered_cleanups:
  "(getTapClient w tapCfg s = (Inr cl, s') \<longrightarrow>
      cleanups s' = cleanups s @ [CloseConn (conn_of cl)])
   \<and> (initClients w cfg t = (Inr (alice, bob, client), t') \<and> cleanups t = [] \<longrightarrow>
        cleanups t' = [CloseConn (conn_of alice), CloseConn (conn_of bob), MineCleanup client]
        \<and> calls_since u (snd (run_cleanup w (MineCleanup client) u)) = [MineBlocks client 1 0]
        \<and> calls_since (t'\<lparr>trace := trace t' @ body\<rparr>)
              (runCleanup w (t'\<lparr>trace := trace t' @ body\<rparr>))
            = [MineBlocks client 1 0, Close (conn_of bob), Close (conn_of alice)])"
proof (intro conjI impI; (elim conjE)?)
  assume "getTapClient w tapCfg s = (Inr cl, s')"
  from getTapClient_Inr [OF this] show "cleanups s' = cleanups s @ [CloseConn (conn_of cl)]"
    by blast
next
  assume run: "initClients w cfg t = (Inr (alice, bob, client), t')" and fresh: "cleanups t = []"
  from initClients_success_shape(2) [OF run] fresh
  show "cleanups t' = [CloseConn (conn_of alice), CloseConn (conn_of bob), MineCleanup client]"
    by simp
  show "calls_since u (snd (run_cleanup w (MineCleanup client) u)) = [MineBlocks client 1 0]"
    unfolding run_cleanup_calls by simp
  show "calls_since (t'\<lparr>trace := trace t' @ body\<rparr>)
              (runCleanup w (t'\<lparr>trace := trace t' @ body\<rparr>))
            = [MineBlocks client 1 0, Close (conn_of bob), Close (conn_of alice)]"
    by (rule teardown_after_success [OF run fresh])
qed

theorem initClients_registered_cleanups_witness:
  "getTapClient world_ok alice_plain newT = (Inr alice_client, alice_built)
   \<and> cleanups alice_built = cleanups newT @ [CloseConn (conn_of alice_client)]
   \<and> initClients world_ok config_plain newT
       = (Inr (alice_client, bob_client, Client 6), after_setup)
   \<and> cleanups newT = []
   \<and> cleanups after_setup =
       [CloseConn (conn_of alice_client), CloseConn (conn_of bob_client), MineCleanup (Client 6)]
   \<and> calls_since after_setup (snd (run_cleanup world_ok (MineCleanup (Client 6)) after_setup))
       = [MineBlocks (Client 6) 1 0]
   \<and> calls_since (after_setup\<lparr>trace := trace after_setup @ []\<rparr>)
         (runCleanup world_ok (after_setup\<lparr>trace := trace after_setup @ []\<rparr>))
       = [MineBlocks (Client 6) 1 0, Close (conn_of bob_client), Close (conn_of alice_client)]"
proof -
  have a: "getTapClient world_ok alice_plain newT = (Inr alice_client, alice_built)"
    by (simp add: getTapClient_def monad_defs example_defs)
  have b: "cleanups newT = []"
    by (simp add: newT_def)
  note reg = initClients_registered_cleanups
      [where w = world_ok and tapCfg = alice_plain and s = newT and cl = alice_client
         and s' = alice_built and cfg = config_plain and t = newT and alice = alice_client
         and bob = bob_client and client = "Client 6" and t' = after_setup
         and u = after_setup and body = "[]"]
  note first = reg [THEN conjunct1, THEN mp, OF a]
  note second = reg [THEN conjunct2, THEN mp, OF conjI [OF ok_run_after_setup b]]
  show ?thesis
    by (intro conjI a b ok_run_after_setup first second [THEN conjunct1]
        second [THEN conjunct2, THEN conjunct1] second [THEN conjunct2, THEN conjunct2])
qed

text \<open>
  C1, as stated, fails on the plain example: the cleanup that \<^verbatim>\<open>initClients\<close> registers
  makes the mining call and no close, and the only call the teardown makes on the chain
  client is that mining call. The chain client has no registered teardown.
\<close>

theorem initClients_cleanup_closes_counterexample:
  "fst (initClients world_ok config_plain newT) = Inr (alice_client, bob_client, Client 6)
   \<and> cleanups after_setup =
       [CloseConn (ClientConn 0), CloseConn (ClientConn 3), MineCleanup (Client 6)]
   \<and> calls_since after_setup (snd (run_cleanup world_ok (MineCleanup (Client 6)) after_setup))
       = [MineBlocks (Client 6) 1 0]
   \<and> filter is_Close
        (calls_since after_setup (snd (run_cleanup world_ok (MineCleanup (Client 6)) after_setup)))
       = []
   \<and> calls_since after_setup (runCleanup world_ok after_setup)
       = [MineBlocks (Client 6) 1 0, Close (ClientConn 3), Close (ClientConn 0)]"
  unfolding ok_run_after_setup after_setup_eq
  by (simp add: since_defs runCleanup_def monad_defs example_defs)

end
